theory Spec2Isabelle
  imports Main "HOL-Library.Word" "HOL-Library.Char_ord"
begin

section \<open>The AWS instance-identity-document node attestor (server/iid_attestor.go)\<close>

text \<open>
  A shallow embedding of \<^verbatim>\<open>server/iid_attestor.go\<close>. Go strings and byte slices are
  \<open>string\<close> (lists of bytes), \<open>int64\<close> is \<open>64 word\<close>, a pointer that may be nil is an
  \<open>option\<close>, a slice is a list. A call either returns or panics; both are values of
  \<open>outcome\<close>. Calls into other packages whose result the plugin cannot determine (JSON,
  base64, SHA-256, RSA, the AWS SDK, HCL, PEM, X.509) are fields of an environment record.
\<close>

subsection \<open>Constants (lines 30-54)\<close>

definition pluginName :: string where
  "pluginName = ''iid_attestor''"

definition maxSecondsBetweenDeviceAttachments :: "64 word" where
  "maxSecondsBetweenDeviceAttachments = 60"

definition awsCaCertPEM :: string where
  "awsCaCertPEM = ''-----BEGIN CERTIFICATE-----\<newline>MIIDIjCCAougAwIBAgIJAKnL4UEDMN/FMA0GCSqGSIb3DQEBBQUAMGoxCzAJBgNV\<newline>BAYTAlVTMRMwEQYDVQQIEwpXYXNoaW5ndG9uMRAwDgYDVQQHEwdTZWF0dGxlMRgw\<newline>FgYDVQQKEw9BbWF6b24uY29tIEluYy4xGjAYBgNVBAMTEWVjMi5hbWF6b25hd3Mu\<newline>Y29tMB4XDTE0MDYwNTE0MjgwMloXDTI0MDYwNTE0MjgwMlowajELMAkGA1UEBhMC\<newline>VVMxEzARBgNVBAgTCldhc2hpbmd0b24xEDAOBgNVBAcTB1NlYXR0bGUxGDAWBgNV\<newline>BAoTD0FtYXpvbi5jb20gSW5jLjEaMBgGA1UEAxMRZWMyLmFtYXpvbmF3cy5jb20w\<newline>gZ8wDQYJKoZIhvcNAQEBBQADgY0AMIGJAoGBAIe9GN//SRK2knbjySG0ho3yqQM3\<newline>e2TDhWO8D2e8+XZqck754gFSo99AbT2RmXClambI7xsYHZFapbELC4H91ycihvrD\<newline>jbST1ZjkLQgga0NE1q43eS68ZeTDccScXQSNivSlzJZS8HJZjgqzBlXjZftjtdJL\<newline>XeE4hwvo0sD4f3j9AgMBAAGjgc8wgcwwHQYDVR0OBBYEFCXWzAgVyrbwnFncFFIs\<newline>77VBdlE4MIGcBgNVHSMEgZQwgZGAFCXWzAgVyrbwnFncFFIs77VBdlE4oW6kbDBq\<newline>MQswCQYDVQQGEwJVUzETMBEGA1UECBMKV2FzaGluZ3RvbjEQMA4GA1UEBxMHU2Vh\<newline>dHRsZTEYMBYGA1UEChMPQW1hem9uLmNvbSBJbmMuMRowGAYDVQQDExFlYzIuYW1h\<newline>em9uYXdzLmNvbYIJAKnL4UEDMN/FMAwGA1UdEwQFMAMBAf8wDQYJKoZIhvcNAQEF\<newline>BQADgYEAFYcz1OgEhQBXIwIdsgCOS8vEtiJYF+j9uO6jz7VOmJqO+pRlAbRlvY8T\<newline>C1haGgSI/A1uZUKs/Zfnph0oEI0/hu1IIJ/SKBDtN5lvmZ/IzbOPIJWirlsllQIQ\<newline>7zvWbGd9c9+Rm3p04oTvhup99la7kZqevJK0QRdD/6NpCKsqP/0=\<newline>-----END CERTIFICATE-----''"

subsection \<open>Go's standard library: \<^verbatim>\<open>path.Join\<close> and \<^verbatim>\<open>(*url.URL).String\<close>\<close>

text \<open>
  \<^verbatim>\<open>spiffeID\<close> builds the identity with \<^verbatim>\<open>path.Join\<close> and prints it with
  \<^verbatim>\<open>(*url.URL).String\<close>. Both are pure functions of the Go standard library and are
  embedded here as they are written there.

  \<^verbatim>\<open>strings.Join\<close> puts the separator between the elements. \<^verbatim>\<open>path.Join\<close> ignores the
  empty elements in front, joins what is left with a slash and returns \<^verbatim>\<open>path.Clean\<close> of
  that; when every element is empty it returns the empty string.
\<close>

fun strings_Join :: "string list \<Rightarrow> string \<Rightarrow> string" where
  "strings_Join [] sep = ''''"
| "strings_Join [e] sep = e"
| "strings_Join (e # e' # es) sep = e @ sep @ strings_Join (e' # es) sep"

text \<open>
  \<^verbatim>\<open>path.Clean\<close> reads the path one slash-separated element at a time and writes the
  cleaned path to a buffer: an empty element and \<^verbatim>\<open>.\<close> are dropped; \<^verbatim>\<open>..\<close> removes the
  last element written when there is one to remove (\<^verbatim>\<open>out.w > dotdot\<close>), is written
  itself when there is none and the path is not rooted, and is dropped at the root; any
  other element is written after a slash. An empty result becomes \<^verbatim>\<open>.\<close>.
  \<open>splitSlash\<close> cuts the path into its elements, \<open>cleanElems\<close> is the loop with the
  buffer kept as the list of elements written so far.
\<close>

fun splitSlash :: "string \<Rightarrow> string list" where
  "splitSlash [] = [[]]"
| "splitSlash (c # cs) =
     (if c = CHR ''/'' then [] # splitSlash cs
      else (case splitSlash cs of [] \<Rightarrow> [[c]] | e # es \<Rightarrow> (c # e) # es))"

fun cleanElems :: "bool \<Rightarrow> string list \<Rightarrow> string list \<Rightarrow> string list" where
  "cleanElems rooted out [] = out"
| "cleanElems rooted out (e # es) =
     (if e = '''' then cleanElems rooted out es
      else if e = ''.'' then cleanElems rooted out es
      else if e = ''..'' then
        (if out \<noteq> [] \<and> last out \<noteq> ''..'' then cleanElems rooted (butlast out) es
         else if \<not> rooted then cleanElems rooted (out @ [''..'']) es
         else cleanElems rooted out es)
      else cleanElems rooted (out @ [e]) es)"

definition path_Clean :: "string \<Rightarrow> string" where
  "path_Clean p =
     (if p = '''' then ''.''
      else
        let rooted = (hd p = CHR ''/'');
            out = cleanElems rooted [] (splitSlash p);
            s = (if rooted then ''/'' else '''') @ strings_Join out ''/''
        in if s = '''' then ''.'' else s)"

definition path_Join :: "string list \<Rightarrow> string" where
  "path_Join elem =
     (case dropWhile (\<lambda>e. e = '''') elem of
        [] \<Rightarrow> ''''
      | e # es \<Rightarrow> path_Clean (strings_Join (e # es) ''/''))"

text \<open>
  \<^verbatim>\<open>net/url\<close>: \<^verbatim>\<open>shouldEscape\<close> for the two modes that \<^verbatim>\<open>String\<close> uses on a URL with
  only Scheme, Host and Path set. Letters and digits are never escaped; a host keeps the
  sub-delimiters and \<^verbatim>\<open>: [ ] < > "\<close>; the marks \<^verbatim>\<open>- _ . ~\<close> are kept; of the reserved
  characters a path escapes only the question mark; everything else is escaped.
  \<^verbatim>\<open>escape\<close> returns the string itself when nothing is to be escaped, and otherwise
  replaces each escaped byte by a percent sign and two upper-case hexadecimal digits.
\<close>

datatype encoding = encodePath | encodeHost

definition upperhex :: string where
  "upperhex = ''0123456789ABCDEF''"

definition shouldEscape :: "char \<Rightarrow> encoding \<Rightarrow> bool" where
  "shouldEscape c mode =
     (if (CHR ''a'' \<le> c \<and> c \<le> CHR ''z'') \<or> (CHR ''A'' \<le> c \<and> c \<le> CHR ''Z'')
          \<or> (CHR ''0'' \<le> c \<and> c \<le> CHR ''9'') then False
      else if mode = encodeHost \<and> c \<in> set ''!$&'()*+,;=:[]<>\"'' then False
      else if c \<in> set ''-_.~'' then False
      else if c \<in> set ''$&+,/:;=?@'' \<and> mode = encodePath then c = CHR ''?''
      else True)"

definition escapeByte :: "encoding \<Rightarrow> char \<Rightarrow> string" where
  "escapeByte mode c =
     (if shouldEscape c mode
      then [CHR ''%'', upperhex ! ((of_char c :: nat) div 16), upperhex ! ((of_char c :: nat) mod 16)]
      else [c])"

definition escape :: "string \<Rightarrow> encoding \<Rightarrow> string" where
  "escape s mode =
     (let hexCount = length (filter (\<lambda>c. shouldEscape c mode) s)
      in if hexCount = 0 then s else concat (map (escapeByte mode) s))"

text \<open>
  The URL that \<^verbatim>\<open>spiffeID\<close> builds sets Scheme, Host and Path; Opaque, User, RawPath,
  RawQuery and Fragment keep their zero values, so \<^verbatim>\<open>EscapedPath\<close> has no RawPath to
  prefer and \<^verbatim>\<open>String\<close> writes neither user, query nor fragment.
\<close>

record URL =
  Scheme :: string
  Host :: string
  Path :: string

definition EscapedPath :: "URL \<Rightarrow> string" where
  "EscapedPath u = (if Path u = ''*'' then ''*'' else escape (Path u) encodePath)"

definition URL_String :: "URL \<Rightarrow> string" where
  "URL_String u =
     (let buf0 = (if Scheme u \<noteq> '''' then Scheme u @ '':'' else '''');
          buf1 = (if Scheme u \<noteq> '''' \<or> Host u \<noteq> ''''
                  then buf0 @ (if Host u \<noteq> '''' \<or> Path u \<noteq> '''' then ''//'' else '''')
                            @ (if Host u \<noteq> '''' then escape (Host u) encodeHost else '''')
                  else buf0);
          path = EscapedPath u;
          buf2 = (if path \<noteq> '''' \<and> hd path \<noteq> CHR ''/'' \<and> Host u \<noteq> ''''
                  then buf1 @ ''/'' else buf1);
          buf3 = (if buf2 = '''' \<and> CHR '':'' \<in> set (takeWhile (\<lambda>c. c \<noteq> CHR ''/'') path)
                  then buf2 @ ''./'' else buf2)
      in buf3 @ path)"

subsection \<open>The plugin and its identity (lines 56-78)\<close>

record rsa_PublicKey =
  N :: int
  E :: int

text \<open>
  A \<^verbatim>\<open>time.Time\<close> is a count of seconds since the Unix epoch and the nanoseconds within
  the second; \<^verbatim>\<open>Unix()\<close> returns the seconds.
\<close>

record Time =
  unixSec :: "64 word"
  nsec :: "32 word"

definition Unix :: "Time \<Rightarrow> 64 word" where
  "Unix t = unixSec t"

text \<open>
  The zero \<^verbatim>\<open>time.Time\<close> is the first second of the year 1.
\<close>

definition zeroTime :: Time where
  "zeroTime = \<lparr>unixSec = - 62135596800, nsec = 0\<rparr>"

text \<open>
  The plugin's fields, without the mutex: in this embedding one call runs at a time and
  finds the mutex free. \<^verbatim>\<open>awsCaCertPublicKey\<close> is a pointer, nil until \<^verbatim>\<open>Configure\<close>
  succeeds. \<^verbatim>\<open>New\<close> (lines 229-233) sets the mutex only.
\<close>

record IIDAttestorPlugin =
  ConfigTime :: Time
  trustDomain :: string
  awsCaCertPublicKey :: "rsa_PublicKey option"

definition New :: IIDAttestorPlugin where
  "New = \<lparr>ConfigTime = zeroTime, trustDomain = '''', awsCaCertPublicKey = None\<rparr>"

definition spiffeID :: "IIDAttestorPlugin \<Rightarrow> string \<Rightarrow> string \<Rightarrow> URL" where
  "spiffeID p awsAccountId awsInstanceId =
     (let spiffePath = path_Join [''spire'', ''agent'', pluginName, awsAccountId, awsInstanceId]
      in \<lparr>Scheme = ''spiffe'', Host = trustDomain p, Path = spiffePath\<rparr>)"

subsection \<open>Outcomes, errors and the calls a run makes\<close>

text \<open>
  An error value is what \<^verbatim>\<open>fmt.Errorf\<close> was given (the format and its arguments), or
  the error a library call returned. A run of a function ends in a panic or in the values
  it returns.
\<close>

datatype error = LibErr string | Errorf string "arg list"
  and arg = ArgString string | ArgInt64 "64 word" | ArgStringPtr "string option"
          | ArgError error | ArgNil

datatype panic = IndexOutOfRange | NilPointerDereference | PanicError error

datatype 'a outcome = Panic panic | Return 'a

datatype call = JsonUnmarshal | Sha256Sum256 | Base64DecodeString | MutexLock
  | RsaVerifyPKCS1v15 | SessionNewSession | Ec2DescribeInstances | MutexUnlock

text \<open>
  \<^verbatim>\<open>attestationStepError\<close> (lines 182-184). The body formats \<^verbatim>\<open>step\<close> and an identifier
  \<^verbatim>\<open>err\<close> that the function does not declare; the embedding takes it to be the
  parameter \<^verbatim>\<open>cause\<close>, the one error the function receives. Line 97 passes a string
  literal as the cause; it is embedded as an error with that message.
\<close>

definition attestationStepError :: "string \<Rightarrow> error \<Rightarrow> error" where
  "attestationStepError step cause =
     Errorf ''Attempted AWS IID attestation but an error occured %s: %s''
       [ArgString step, ArgError cause]"

subsection \<open>Requests, documents and the provider's descriptor\<close>

record common_AttestedData =
  Type :: string
  Data :: string

record AttestRequest =
  AttestedData :: "common_AttestedData option"
  AttestedBefore :: bool

record AttestResponse =
  Valid :: bool
  BaseSPIFFEID :: string

text \<open>
  Modelled from the spec: the package \<^verbatim>\<open>common\<close> that declares \<^verbatim>\<open>IidAttestedData\<close> and
  \<^verbatim>\<open>InstanceIdentityDocument\<close> is not among the sources. The spec gives the first a
  document and a base64 signature, the second an account id, an instance id and a
  region; these are the fields \<^verbatim>\<open>Attest\<close> reads.
\<close>

record IidAttestedData =
  Document :: string
  Signature :: string

record InstanceIdentityDocument =
  AccountId :: string
  InstanceId :: string
  Region :: string

text \<open>
  The types of the AWS SDK's \<^verbatim>\<open>ec2\<close> package, with the fields \<^verbatim>\<open>Attest\<close> reads. Every
  field of these structs is a pointer or a slice of pointers. The attach time of the
  block device is the field \<^verbatim>\<open>AttachTime\<close> of \<^verbatim>\<open>EbsInstanceBlockDevice\<close>.
\<close>

record InstanceNetworkInterfaceAttachment =
  AttachTime :: "Time option"
  DeviceIndex :: "64 word option"

record InstanceNetworkInterface =
  Attachment :: "InstanceNetworkInterfaceAttachment option"

record EbsInstanceBlockDevice =
  EbsAttachTime :: "Time option"

record InstanceBlockDeviceMapping =
  DeviceName :: "string option"
  Ebs :: "EbsInstanceBlockDevice option"

record Instance =
  NetworkInterfaces :: "InstanceNetworkInterface option list"
  BlockDeviceMappings :: "InstanceBlockDeviceMapping option list"
  RootDeviceName :: "string option"

record Reservation =
  Instances :: "Instance option list"

record DescribeInstancesOutput =
  Reservations :: "Reservation option list"

text \<open>
  What \<^verbatim>\<open>Attest\<close> calls outside the plugin. \<^verbatim>\<open>json.Unmarshal\<close> is called at two types;
  \<^verbatim>\<open>session.NewSession\<close> returns an error or not; \<^verbatim>\<open>DescribeInstances\<close> is asked in the
  region of the document for its instance id. Converting a float64 that no int64 holds
  gives a value that the Go implementation chooses: \<open>int64_out_of_range\<close>.
\<close>

record AttestEnv =
  json_Unmarshal_IidAttestedData :: "string \<Rightarrow> error + IidAttestedData"
  json_Unmarshal_InstanceIdentityDocument :: "string \<Rightarrow> error + InstanceIdentityDocument"
  sha256_Sum256 :: "string \<Rightarrow> string"
  base64_DecodeString :: "string \<Rightarrow> error + string"
  rsa_VerifyPKCS1v15 :: "rsa_PublicKey \<Rightarrow> string \<Rightarrow> string \<Rightarrow> error option"
  session_NewSession :: "error option"
  ec2_DescribeInstances :: "string \<Rightarrow> string list \<Rightarrow> error + DescribeInstancesOutput"
  int64_out_of_range :: "64 word"

subsection \<open>The disparity of the attach times (line 166)\<close>

text \<open>
  \<^verbatim>\<open>int64(math.Abs(float64(a - b)))\<close>: the difference wraps in 64 bits, is rounded to
  the nearest float64 (53 significant bits, ties to even), loses its sign and is
  converted back. Every float64 that arises is an integer and is represented by that
  integer. Below \<open>2 ^ 53\<close> the rounding changes nothing; above, the \<open>bitLen m - 53\<close>
  low bits are rounded away, \<open>bitLen\<close> being the number of bits of a positive integer.
\<close>

function bitLen :: "int \<Rightarrow> nat" where
  "bitLen n = (if n \<le> 0 then 0 else Suc (bitLen (n div 2)))"
  by pat_completeness auto
termination
  by (relation "measure nat") auto

declare bitLen.simps [simp del]

definition float64_of_int64 :: "64 word \<Rightarrow> int" where
  "float64_of_int64 x =
     (let i = sint x; m = \<bar>i\<bar>
      in if m < 2 ^ 53 then i
         else
           let sh = bitLen m - 53;
               q = m div 2 ^ sh;
               r = m mod 2 ^ sh;
               half = 2 ^ (sh - 1);
               q' = (if half < r \<or> (r = half \<and> odd q) then q + 1 else q)
           in sgn i * (q' * 2 ^ sh))"

definition math_Abs :: "int \<Rightarrow> int" where
  "math_Abs f = \<bar>f\<bar>"

definition int64_of_float64 :: "64 word \<Rightarrow> int \<Rightarrow> 64 word" where
  "int64_of_float64 outOfRange f =
     (if - (2 ^ 63) \<le> f \<and> f < 2 ^ 63 then word_of_int f else outOfRange)"

definition attachTimeDisparity :: "AttestEnv \<Rightarrow> Time \<Rightarrow> Time \<Rightarrow> 64 word" where
  "attachTimeDisparity env ifaceZeroAttachTime rootDeviceAttachTime =
     int64_of_float64 (int64_out_of_range env)
       (math_Abs (float64_of_int64 (Unix ifaceZeroAttachTime - Unix rootDeviceAttachTime)))"

subsection \<open>Attest (lines 80-180)\<close>

definition denied :: "string \<Rightarrow> error \<Rightarrow> (AttestResponse \<times> error option) outcome" where
  "denied step cause =
     Return (\<lparr>Valid = False, BaseSPIFFEID = ''''\<rparr>, Some (attestationStepError step cause))"

text \<open>
  Lines 166-179: both attach times are dereferenced by \<^verbatim>\<open>Unix()\<close>; the disparity is
  compared, as a signed number, with the maximum; the identity is derived.
\<close>

definition Attest_disparity ::
  "AttestEnv \<Rightarrow> IIDAttestorPlugin \<Rightarrow> InstanceIdentityDocument \<Rightarrow> Time option \<Rightarrow> Time option
     \<Rightarrow> (AttestResponse \<times> error option) outcome" where
  "Attest_disparity env p doc ifaceZeroAttachTime rootDeviceAttachTime =
     (case ifaceZeroAttachTime of
        None \<Rightarrow> Panic NilPointerDereference
      | Some t0 \<Rightarrow>
     (case rootDeviceAttachTime of
        None \<Rightarrow> Panic NilPointerDereference
      | Some t1 \<Rightarrow>
          let attachTimeDisparitySeconds = attachTimeDisparity env t0 t1
          in if sint maxSecondsBetweenDeviceAttachments < sint attachTimeDisparitySeconds
             then denied ''checking the disparity device attach times''
                    (Errorf ''root BlockDeviceMapping and NetworkInterface[0] attach times differ by %d seconds''
                       [ArgInt64 attachTimeDisparitySeconds])
             else Return (\<lparr>Valid = True,
                            BaseSPIFFEID = URL_String (spiffeID p (AccountId doc) (InstanceId doc))\<rparr>,
                          None)))"

text \<open>
  Lines 150-156: the loop over the block-device mappings. It dereferences the mapping,
  its device name and the root device name, and stops at the first mapping whose name is
  the root device's; \<open>i\<close> is the index of the head of the list.
\<close>

fun rootDeviceIndex ::
  "InstanceBlockDeviceMapping option list \<Rightarrow> string option \<Rightarrow> int \<Rightarrow> int outcome" where
  "rootDeviceIndex [] rootDeviceName i = Return (- 1)"
| "rootDeviceIndex (bdm # bdms) rootDeviceName i =
     (case bdm of
        None \<Rightarrow> Panic NilPointerDereference
      | Some m \<Rightarrow>
     (case DeviceName m of
        None \<Rightarrow> Panic NilPointerDereference
      | Some deviceName \<Rightarrow>
     (case rootDeviceName of
        None \<Rightarrow> Panic NilPointerDereference
      | Some rootName \<Rightarrow>
          if deviceName = rootName then Return i
          else rootDeviceIndex bdms rootDeviceName (i + 1))))"

text \<open>Lines 150-164: the root device's mapping and the attach time of its volume.\<close>

definition Attest_rootDevice ::
  "AttestEnv \<Rightarrow> IIDAttestorPlugin \<Rightarrow> InstanceIdentityDocument
     \<Rightarrow> InstanceBlockDeviceMapping option list \<Rightarrow> string option \<Rightarrow> Time option
     \<Rightarrow> (AttestResponse \<times> error option) outcome" where
  "Attest_rootDevice env p doc blockDeviceMappings rootDeviceName ifaceZeroAttachTime =
     (case rootDeviceIndex blockDeviceMappings rootDeviceName 0 of
        Panic pn \<Rightarrow> Panic pn
      | Return idx \<Rightarrow>
          if idx = - 1
          then denied ''locating the root device block mapping''
                 (Errorf (''could not locate a device mapping with name '%s'' @ [CHR 0x27])
                    [ArgStringPtr rootDeviceName])
          else if idx < 0 \<or> int (length blockDeviceMappings) \<le> idx then Panic IndexOutOfRange
          else
            (case blockDeviceMappings ! nat idx of
               None \<Rightarrow> Panic NilPointerDereference
             | Some bdm \<Rightarrow>
            (case Ebs bdm of
               None \<Rightarrow> Panic NilPointerDereference
             | Some ebs \<Rightarrow>
                 Attest_disparity env p doc ifaceZeroAttachTime (EbsAttachTime ebs))))"

text \<open>
  Lines 140-148: the first network interface, its attachment and device index are read
  with no check of the slice's length or of the pointers.
\<close>

definition Attest_topology ::
  "AttestEnv \<Rightarrow> IIDAttestorPlugin \<Rightarrow> InstanceIdentityDocument \<Rightarrow> Instance
     \<Rightarrow> (AttestResponse \<times> error option) outcome" where
  "Attest_topology env p doc instance =
     (case NetworkInterfaces instance of
        [] \<Rightarrow> Panic IndexOutOfRange
      | None # _ \<Rightarrow> Panic NilPointerDereference
      | Some iface # _ \<Rightarrow>
     (case Attachment iface of
        None \<Rightarrow> Panic NilPointerDereference
      | Some attachment \<Rightarrow>
     (case DeviceIndex attachment of
        None \<Rightarrow> Panic NilPointerDereference
      | Some ifaceZeroDeviceIndex \<Rightarrow>
          if ifaceZeroDeviceIndex \<noteq> 0
          then denied ''verifying the EC2 instance's NetworkInterface[0].DeviceIndex is 0''
                 (Errorf ''DeviceIndex is %d'' [ArgInt64 ifaceZeroDeviceIndex])
          else Attest_rootDevice env p doc (BlockDeviceMappings instance)
                 (RootDeviceName instance) (AttachTime attachment))))"

text \<open>Line 138: the first instance of the first reservation, with no check of either slice.\<close>

definition Attest_instance ::
  "AttestEnv \<Rightarrow> IIDAttestorPlugin \<Rightarrow> InstanceIdentityDocument \<Rightarrow> DescribeInstancesOutput
     \<Rightarrow> (AttestResponse \<times> error option) outcome" where
  "Attest_instance env p doc result =
     (case Reservations result of
        [] \<Rightarrow> Panic IndexOutOfRange
      | None # _ \<Rightarrow> Panic NilPointerDereference
      | Some reservation # _ \<Rightarrow>
     (case Instances reservation of
        [] \<Rightarrow> Panic IndexOutOfRange
      | None # _ \<Rightarrow> Panic NilPointerDereference
      | Some instance # _ \<Rightarrow> Attest_topology env p doc instance))"

text \<open>
  Lines 116-136, between \<^verbatim>\<open>Lock\<close> and the deferred \<^verbatim>\<open>Unlock\<close>: the signature is
  verified with the plugin's key (\<^verbatim>\<open>rsa.VerifyPKCS1v15\<close> reads the key's modulus, so a nil
  key panics), \<^verbatim>\<open>session.Must\<close> panics with the error of \<^verbatim>\<open>NewSession\<close>, and the instance
  is described. The second component lists the calls made.
\<close>

definition Attest_locked ::
  "AttestEnv \<Rightarrow> IIDAttestorPlugin \<Rightarrow> InstanceIdentityDocument \<Rightarrow> string \<Rightarrow> string
     \<Rightarrow> (AttestResponse \<times> error option) outcome \<times> call list" where
  "Attest_locked env p doc docHash sigBytes =
     (case awsCaCertPublicKey p of
        None \<Rightarrow> (Panic NilPointerDereference, [RsaVerifyPKCS1v15])
      | Some key \<Rightarrow>
     (case rsa_VerifyPKCS1v15 env key docHash sigBytes of
        Some err \<Rightarrow> (denied ''verifying the cryptographic signature'' err, [RsaVerifyPKCS1v15])
      | None \<Rightarrow>
     (case session_NewSession env of
        Some err \<Rightarrow> (Panic (PanicError err), [RsaVerifyPKCS1v15, SessionNewSession])
      | None \<Rightarrow>
     (case ec2_DescribeInstances env (Region doc) [InstanceId doc] of
        Inl err \<Rightarrow>
          (denied ''querying AWS via describe-instances'' err,
           [RsaVerifyPKCS1v15, SessionNewSession, Ec2DescribeInstances])
      | Inr result \<Rightarrow>
          (Attest_instance env p doc result,
           [RsaVerifyPKCS1v15, SessionNewSession, Ec2DescribeInstances])))))"

text \<open>
  Lines 80-114. The request's \<^verbatim>\<open>AttestedData\<close> is a pointer. The test of \<^verbatim>\<open>err\<close> after
  the hash (line 102) reads the nil error of the second \<^verbatim>\<open>Unmarshal\<close> and never fires. The
  mutex is free when the call starts; the deferred \<^verbatim>\<open>Unlock\<close> runs however the locked part
  ends.
\<close>

definition Attest ::
  "AttestEnv \<Rightarrow> IIDAttestorPlugin \<Rightarrow> AttestRequest
     \<Rightarrow> (AttestResponse \<times> error option) outcome \<times> call list" where
  "Attest env p req =
     (case AttestedData req of
        None \<Rightarrow> (Panic NilPointerDereference, [])
      | Some ad \<Rightarrow>
     (case json_Unmarshal_IidAttestedData env (Data ad) of
        Inl err \<Rightarrow> (denied ''unmarshaling the attestation data'' err, [JsonUnmarshal])
      | Inr attestedData \<Rightarrow>
     (case json_Unmarshal_InstanceIdentityDocument env (Document attestedData) of
        Inl err \<Rightarrow> (denied ''unmarshaling the IID'' err, [JsonUnmarshal, JsonUnmarshal])
      | Inr doc \<Rightarrow>
          if AttestedBefore req
          then (denied ''validating the IID''
                  (LibErr ''the IID has been used and is no longer valid''),
                [JsonUnmarshal, JsonUnmarshal])
          else
            let docHash = sha256_Sum256 env (Document attestedData)
            in (case base64_DecodeString env (Signature attestedData) of
                  Inl err \<Rightarrow>
                    (denied ''base64 decoding the IID signature'' err,
                     [JsonUnmarshal, JsonUnmarshal, Sha256Sum256, Base64DecodeString])
                | Inr sigBytes \<Rightarrow>
                    (case Attest_locked env p doc docHash sigBytes of
                       (r, calls) \<Rightarrow>
                         (r, [JsonUnmarshal, JsonUnmarshal, Sha256Sum256, Base64DecodeString,
                              MutexLock] @ calls @ [MutexUnlock]))))))"

subsection \<open>Configure (lines 186-223)\<close>

record ConfigureRequest =
  Configuration :: string

record ConfigureResponse =
  ErrorList :: "string list"

record IIDAttestorConfig =
  TrustDomain :: string

record pem_Block =
  Bytes :: string

datatype crypto_PublicKey =
  RSAPublicKey rsa_PublicKey | DSAPublicKey | ECDSAPublicKey | NoPublicKey

record x509_Certificate =
  PublicKey :: crypto_PublicKey

text \<open>
  What \<^verbatim>\<open>Configure\<close> calls outside the plugin: the HCL parser and decoder (\<open>'ast\<close> is
  the parser's syntax tree), \<^verbatim>\<open>pem.Decode\<close>, which returns a nil block when it finds
  none, and \<^verbatim>\<open>x509.ParseCertificate\<close>.
\<close>

record 'ast ConfigureEnv =
  hcl_Parse :: "string \<Rightarrow> error + 'ast"
  hcl_DecodeObject :: "'ast \<Rightarrow> error + IIDAttestorConfig"
  pem_Decode :: "string \<Rightarrow> pem_Block option"
  x509_ParseCertificate :: "string \<Rightarrow> error + x509_Certificate"

text \<open>
  The certificate that is decoded and parsed is the constant \<^verbatim>\<open>awsCaCertPEM\<close>; the
  request is read for its \<^verbatim>\<open>Configuration\<close> only. The plugin is written after the last
  check. In the message of the failed type assertion (line 212) \<^verbatim>\<open>err\<close> is the nil error
  of the parse before.
\<close>

definition Configure ::
  "'ast ConfigureEnv \<Rightarrow> IIDAttestorPlugin \<Rightarrow> ConfigureRequest
     \<Rightarrow> IIDAttestorPlugin \<times> (ConfigureResponse \<times> error option) outcome" where
  "Configure env p req =
     (let resp = \<lparr>ErrorList = []\<rparr>
      in
     (case hcl_Parse env (Configuration req) of
        Inl err \<Rightarrow>
          (p, Return (resp, Some (Errorf ''Error parsing AWS IID Attestor configuration: %s''
                                    [ArgError err])))
      | Inr hclTree \<Rightarrow>
     (case hcl_DecodeObject env hclTree of
        Inl err \<Rightarrow>
          (p, Return (resp, Some (Errorf ''Error decoding AWS IID Attestor configuration: %v''
                                    [ArgError err])))
      | Inr config \<Rightarrow>
     (case pem_Decode env awsCaCertPEM of
        None \<Rightarrow> (p, Panic NilPointerDereference)
      | Some block \<Rightarrow>
     (case x509_ParseCertificate env (Bytes block) of
        Inl err \<Rightarrow>
          (p, Return (resp, Some (Errorf ''Error reading the AWS CA Certificate in the AWS IID Attestor: %v''
                                    [ArgError err])))
      | Inr awsCaCert \<Rightarrow>
     (case PublicKey awsCaCert of
        RSAPublicKey awsCaCertPublicKey' \<Rightarrow>
          (p\<lparr>trustDomain := TrustDomain config, awsCaCertPublicKey := Some awsCaCertPublicKey'\<rparr>,
           Return (\<lparr>ErrorList = []\<rparr>, None))
      | _ \<Rightarrow>
          (p, Return (resp, Some (Errorf ''Error extracting the AWS CA Certificate's public key in the AWS IID Attestor: %v''
                                    [ArgNil])))))))))"

text \<open>
  The public key of the certificate in \<^verbatim>\<open>awsCaCertPEM\<close>, as the environment's PEM
  decoder and X.509 parser read it, and whether a key is an RSA key (the type assertion
  of line 210).
\<close>

definition embeddedPublicKey :: "'ast ConfigureEnv \<Rightarrow> crypto_PublicKey option" where
  "embeddedPublicKey env =
     (case pem_Decode env awsCaCertPEM of
        None \<Rightarrow> None
      | Some block \<Rightarrow>
     (case x509_ParseCertificate env (Bytes block) of
        Inl _ \<Rightarrow> None
      | Inr cert \<Rightarrow> Some (PublicKey cert)))"

definition isRSA :: "crypto_PublicKey \<Rightarrow> bool" where
  "isRSA k = (case k of RSAPublicKey _ \<Rightarrow> True | _ \<Rightarrow> False)"

subsection \<open>Conditions on a call\<close>

text \<open>
  The payload decodes: the request carries attested data, which unmarshals to
  \<open>attestedData\<close>, whose document unmarshals to \<open>doc\<close>.
\<close>

definition decodes ::
  "AttestEnv \<Rightarrow> AttestRequest \<Rightarrow> IidAttestedData \<Rightarrow> InstanceIdentityDocument \<Rightarrow> bool" where
  "decodes env req attestedData doc \<longleftrightarrow>
     (case AttestedData req of
        None \<Rightarrow> False
      | Some ad \<Rightarrow>
          json_Unmarshal_IidAttestedData env (Data ad) = Inr attestedData
          \<and> json_Unmarshal_InstanceIdentityDocument env (Document attestedData) = Inr doc)"

text \<open>
  The signature verifies against the trust anchor: it is base64, the plugin has a key,
  and the RSA check of the document's hash returns no error.
\<close>

definition signatureVerifies :: "AttestEnv \<Rightarrow> IIDAttestorPlugin \<Rightarrow> IidAttestedData \<Rightarrow> bool" where
  "signatureVerifies env p attestedData \<longleftrightarrow>
     (case base64_DecodeString env (Signature attestedData) of
        Inl _ \<Rightarrow> False
      | Inr sigBytes \<Rightarrow>
     (case awsCaCertPublicKey p of
        None \<Rightarrow> False
      | Some key \<Rightarrow>
          rsa_VerifyPKCS1v15 env key (sha256_Sum256 env (Document attestedData)) sigBytes = None))"

text \<open>The call reaches the query of the provider (line 132).\<close>

definition reachesQuery ::
  "AttestEnv \<Rightarrow> IIDAttestorPlugin \<Rightarrow> AttestRequest \<Rightarrow> IidAttestedData
     \<Rightarrow> InstanceIdentityDocument \<Rightarrow> bool" where
  "reachesQuery env p req attestedData doc \<longleftrightarrow>
     decodes env req attestedData doc \<and> \<not> AttestedBefore req
     \<and> signatureVerifies env p attestedData \<and> session_NewSession env = None"

text \<open>
  The provider answers with a descriptor: the first instance of the first reservation
  of its response is \<open>instance\<close>.
\<close>

definition describedInstance :: "AttestEnv \<Rightarrow> InstanceIdentityDocument \<Rightarrow> Instance \<Rightarrow> bool" where
  "describedInstance env doc instance \<longleftrightarrow>
     (case ec2_DescribeInstances env (Region doc) [InstanceId doc] of
        Inl _ \<Rightarrow> False
      | Inr result \<Rightarrow>
     (case Reservations result of
        Some reservation # _ \<Rightarrow>
          (case Instances reservation of
             Some i # _ \<Rightarrow> i = instance
           | _ \<Rightarrow> False)
      | _ \<Rightarrow> False))"

definition reachesTopology ::
  "AttestEnv \<Rightarrow> IIDAttestorPlugin \<Rightarrow> AttestRequest \<Rightarrow> IidAttestedData
     \<Rightarrow> InstanceIdentityDocument \<Rightarrow> Instance \<Rightarrow> bool" where
  "reachesTopology env p req attestedData doc instance \<longleftrightarrow>
     reachesQuery env p req attestedData doc \<and> describedInstance env doc instance"

text \<open>The interface at position 0 of the descriptor has the attachment \<open>attachment\<close>.\<close>

definition primaryAttachment :: "Instance \<Rightarrow> InstanceNetworkInterfaceAttachment \<Rightarrow> bool" where
  "primaryAttachment instance attachment \<longleftrightarrow>
     (case NetworkInterfaces instance of
        Some iface # _ \<Rightarrow> Attachment iface = Some attachment
      | _ \<Rightarrow> False)"

text \<open>A mapping with a device name that is not the root device's.\<close>

definition otherDevice :: "string \<Rightarrow> InstanceBlockDeviceMapping option \<Rightarrow> bool" where
  "otherDevice rootName bdm \<longleftrightarrow>
     (case bdm of
        None \<Rightarrow> False
      | Some m \<Rightarrow> (case DeviceName m of None \<Rightarrow> False | Some deviceName \<Rightarrow> deviceName \<noteq> rootName))"

text \<open>
  \<open>m\<close> is the first mapping, in the order of the sequence, whose device name is the root
  device's: the mappings before it have other names.
\<close>

definition firstRootMapping ::
  "Instance \<Rightarrow> string \<Rightarrow> InstanceBlockDeviceMapping option list \<Rightarrow> InstanceBlockDeviceMapping
     \<Rightarrow> InstanceBlockDeviceMapping option list \<Rightarrow> bool" where
  "firstRootMapping instance rootName preceding m following \<longleftrightarrow>
     RootDeviceName instance = Some rootName
     \<and> BlockDeviceMappings instance = preceding @ Some m # following
     \<and> list_all (otherDevice rootName) preceding
     \<and> DeviceName m = Some rootName"

text \<open>The disparity the spec defines: the absolute difference of the two times in seconds.\<close>

definition disparity :: "Time \<Rightarrow> Time \<Rightarrow> int" where
  "disparity t0 t1 = \<bar>sint (Unix t0) - sint (Unix t1)\<bar>"

text \<open>
  A path segment that \<^verbatim>\<open>path.Join\<close> leaves as it is, and strings that \<^verbatim>\<open>String\<close> prints
  without escaping as host and as path segment.
\<close>

definition segment :: "string \<Rightarrow> bool" where
  "segment s \<longleftrightarrow> s \<noteq> '''' \<and> s \<noteq> ''.'' \<and> s \<noteq> ''..'' \<and> CHR ''/'' \<notin> set s"

definition plainHost :: "string \<Rightarrow> bool" where
  "plainHost h \<longleftrightarrow> h \<noteq> '''' \<and> list_all (\<lambda>c. \<not> shouldEscape c encodeHost) h"

definition plainSegment :: "string \<Rightarrow> bool" where
  "plainSegment s \<longleftrightarrow> segment s \<and> list_all (\<lambda>c. \<not> shouldEscape c encodePath) s"

text \<open>The calls of a run that gets past the query of the provider.\<close>

definition queryCalls :: "call list" where
  "queryCalls = [JsonUnmarshal, JsonUnmarshal, Sha256Sum256, Base64DecodeString, MutexLock,
                 RsaVerifyPKCS1v15, SessionNewSession, Ec2DescribeInstances, MutexUnlock]"

subsection \<open>A fake environment with synthetic descriptors\<close>

text \<open>
  Stand-ins for the collaborators, to run the functions on concrete inputs: one payload
  decodes, one signature verifies, and the provider answers for one instance with the
  response it is given.
\<close>

definition fake_attestedData :: IidAttestedData where
  "fake_attestedData = \<lparr>Document = ''{iid}'', Signature = ''c2lnbmVk''\<rparr>"

definition fake_doc :: InstanceIdentityDocument where
  "fake_doc = \<lparr>AccountId = ''123456789012'', InstanceId = ''i-0abc'', Region = ''us-east-1''\<rparr>"

definition fake_env :: "error + DescribeInstancesOutput \<Rightarrow> AttestEnv" where
  "fake_env response =
     \<lparr>json_Unmarshal_IidAttestedData =
        (\<lambda>data. if data = ''{payload}'' then Inr fake_attestedData
                 else Inl (LibErr ''unexpected end of JSON input'')),
      json_Unmarshal_InstanceIdentityDocument =
        (\<lambda>data. if data = ''{iid}'' then Inr fake_doc
                 else Inl (LibErr ''unexpected end of JSON input'')),
      sha256_Sum256 = (\<lambda>data. ''sha256 of '' @ data),
      base64_DecodeString =
        (\<lambda>s. if s = ''c2lnbmVk'' then Inr ''signed''
              else Inl (LibErr ''illegal base64 data'')),
      rsa_VerifyPKCS1v15 =
        (\<lambda>key hashed sig. if hashed = ''sha256 of {iid}'' \<and> sig = ''signed'' then None
                           else Some (LibErr ''crypto/rsa: verification error'')),
      session_NewSession = None,
      ec2_DescribeInstances =
        (\<lambda>region ids. if region = ''us-east-1'' \<and> ids = [''i-0abc''] then response
                       else Inl (LibErr ''InvalidInstanceID.NotFound'')),
      int64_out_of_range = 0x8000000000000000\<rparr>"

definition fake_key :: rsa_PublicKey where
  "fake_key = \<lparr>N = 0x87bd18dfff4912b69276e3c921b4868df2a903377b64c38563bc0f67bcf9766a724ef9e20152a3df406d3d919970a56a66c8ef1b181d915aa5b10b0b81fdd7272286fac38db493d598e42d08206b4344d6ae37792ebc65e4c371c49c5d048d8af4a5cc9652f072598e0ab30655e365fb63b5d24b5de138870be8d2c0f87f78fd,
                E = 65537\<rparr>"

definition fake_plugin :: "string \<Rightarrow> IIDAttestorPlugin" where
  "fake_plugin domain =
     \<lparr>ConfigTime = zeroTime, trustDomain = domain, awsCaCertPublicKey = Some fake_key\<rparr>"

definition fake_request :: "bool \<Rightarrow> AttestRequest" where
  "fake_request attestedBefore =
     \<lparr>AttestedData = Some \<lparr>Type = ''aws_iid'', Data = ''{payload}''\<rparr>, AttestedBefore = attestedBefore\<rparr>"

definition fake_attachment :: "64 word \<Rightarrow> 64 word \<Rightarrow> InstanceNetworkInterfaceAttachment" where
  "fake_attachment deviceIndex seconds =
     \<lparr>AttachTime = Some \<lparr>unixSec = seconds, nsec = 0\<rparr>, DeviceIndex = Some deviceIndex\<rparr>"

definition fake_iface :: "64 word \<Rightarrow> 64 word \<Rightarrow> InstanceNetworkInterface option" where
  "fake_iface deviceIndex seconds = Some \<lparr>Attachment = Some (fake_attachment deviceIndex seconds)\<rparr>"

definition fake_ebs :: "64 word \<Rightarrow> EbsInstanceBlockDevice" where
  "fake_ebs seconds = \<lparr>EbsAttachTime = Some \<lparr>unixSec = seconds, nsec = 0\<rparr>\<rparr>"

definition fake_volume :: "string \<Rightarrow> 64 word \<Rightarrow> InstanceBlockDeviceMapping" where
  "fake_volume name seconds = \<lparr>DeviceName = Some name, Ebs = Some (fake_ebs seconds)\<rparr>"

definition fake_instance ::
  "InstanceNetworkInterface option list \<Rightarrow> InstanceBlockDeviceMapping option list \<Rightarrow> Instance" where
  "fake_instance ifaces volumes =
     \<lparr>NetworkInterfaces = ifaces, BlockDeviceMappings = volumes,
      RootDeviceName = Some ''/dev/xvda''\<rparr>"

definition fake_response :: "Instance \<Rightarrow> error + DescribeInstancesOutput" where
  "fake_response instance = Inr \<lparr>Reservations = [Some \<lparr>Instances = [Some instance]\<rparr>]\<rparr>"

text \<open>An instance with one interface, at device index 0, and its root volume.\<close>

definition fake_booted :: "64 word \<Rightarrow> 64 word \<Rightarrow> Instance" where
  "fake_booted ifaceSeconds rootSeconds =
     fake_instance [fake_iface 0 ifaceSeconds] [Some (fake_volume ''/dev/xvda'' rootSeconds)]"

text \<open>
  A fake environment for \<^verbatim>\<open>Configure\<close>: the configuration is a line
  \<^verbatim>\<open>trust_domain = ...\<close>, followed or not by other text; the PEM decoder knows the
  embedded certificate and one other root, which may stand in the configuration, and the
  parser gives each its own RSA key.
\<close>

definition fake_other_root :: string where
  "fake_other_root = ''-----BEGIN CERTIFICATE-----\<newline>b3RoZXI=\<newline>-----END CERTIFICATE-----''"

definition fake_other_key :: rsa_PublicKey where
  "fake_other_key = \<lparr>N = 3233, E = 17\<rparr>"

definition fake_configure_env :: "crypto_PublicKey \<Rightarrow> IIDAttestorConfig ConfigureEnv" where
  "fake_configure_env embeddedKey =
     \<lparr>hcl_Parse =
        (\<lambda>s. if take 15 s = ''trust_domain = ''
              then Inr \<lparr>TrustDomain = takeWhile (\<lambda>c. c \<noteq> CHR ''\<newline>'') (drop 15 s)\<rparr>
              else Inl (LibErr ''illegal char'')),
      hcl_DecodeObject = Inr,
      pem_Decode =
        (\<lambda>s. if s = awsCaCertPEM then Some \<lparr>Bytes = ''der of the embedded certificate''\<rparr>
              else if dropWhile (\<lambda>c. c \<noteq> CHR ''-'') s = fake_other_root then Some \<lparr>Bytes = ''der of the other root''\<rparr>
              else None),
      x509_ParseCertificate =
        (\<lambda>der. if der = ''der of the embedded certificate'' then Inr \<lparr>PublicKey = embeddedKey\<rparr>
                else if der = ''der of the other root'' then Inr \<lparr>PublicKey = RSAPublicKey fake_other_key\<rparr>
                else Inl (LibErr ''asn1: syntax error''))\<rparr>"

definition fake_configure_request :: ConfigureRequest where
  "fake_configure_request =
     \<lparr>Configuration = ''trust_domain = example.org\<newline>'' @ fake_other_root\<rparr>"

section \<open>Properties\<close>

subsection \<open>Escaping and joining\<close>

lemma escape_concat: "escape s mode = concat (map (escapeByte mode) s)"
proof (cases "filter (\<lambda>c. shouldEscape c mode) s = []")
  case True
  then have "\<forall>c \<in> set s. \<not> shouldEscape c mode"
    by (simp add: filter_empty_conv)
  then have "concat (map (escapeByte mode) s) = s"
    by (induction s) (simp_all add: escapeByte_def)
  with True show ?thesis by (simp add: escape_def)
next
  case False
  then show ?thesis by (simp add: escape_def Let_def)
qed

lemma escape_append: "escape (xs @ ys) mode = escape xs mode @ escape ys mode"
  by (simp add: escape_concat)

lemma escape_Cons: "escape (c # cs) mode = escapeByte mode c @ escape cs mode"
  by (simp add: escape_concat)

lemma escape_Nil: "escape [] mode = []"
  by (simp add: escape_concat)

lemma escape_plain: "list_all (\<lambda>c. \<not> shouldEscape c mode) s \<Longrightarrow> escape s mode = s"
  by (induction s) (simp_all add: escape_Nil escape_Cons escapeByte_def)

lemma upperhex_nth_inj:
  "i < 16 \<Longrightarrow> j < 16 \<Longrightarrow> upperhex ! i = upperhex ! j \<Longrightarrow> i = j"
proof -
  have "distinct upperhex" by (simp add: upperhex_def)
  moreover have "length upperhex = 16" by (simp add: upperhex_def)
  ultimately show "i < 16 \<Longrightarrow> j < 16 \<Longrightarrow> upperhex ! i = upperhex ! j \<Longrightarrow> i = j"
    by (simp add: nth_eq_iff_index_eq)
qed

lemma hex_digits_inj:
  assumes "upperhex ! ((of_char c :: nat) div 16) = upperhex ! ((of_char d :: nat) div 16)"
    and "upperhex ! ((of_char c :: nat) mod 16) = upperhex ! ((of_char d :: nat) mod 16)"
  shows "c = d"
proof -
  have c: "(of_char c :: nat) < 256" and d: "(of_char d :: nat) < 256"
    by (simp_all add: of_char_def) 
  then have "(of_char c :: nat) div 16 < 16" "(of_char d :: nat) div 16 < 16"
    by (simp_all add: less_mult_imp_div_less)
  with assms(1) have hi: "(of_char c :: nat) div 16 = of_char d div 16"
    by (rule_tac upperhex_nth_inj)
  have "(of_char c :: nat) mod 16 = of_char d mod 16"
    using assms(2) by (intro upperhex_nth_inj) simp_all
  with hi have "(of_char c :: nat) = of_char d"
    by (metis div_mult_mod_eq)
  then show ?thesis by simp
qed

lemma upperhex_no_slash: "i < 16 \<Longrightarrow> upperhex ! i \<noteq> CHR ''/''"
proof -
  have "CHR ''/'' \<notin> set upperhex" by (simp add: upperhex_def)
  moreover have "length upperhex = 16" by (simp add: upperhex_def)
  ultimately show "i < 16 \<Longrightarrow> upperhex ! i \<noteq> CHR ''/''"
    by (metis nth_mem)
qed

lemma shouldEscape_percent: "shouldEscape (CHR ''%'') mode"
  by (cases mode) (simp_all add: shouldEscape_def)

lemma shouldEscape_slash_host: "shouldEscape (CHR ''/'') encodeHost"
  by (simp add: shouldEscape_def)

lemma escapeByte_not_Nil: "escapeByte mode c \<noteq> []"
  by (simp add: escapeByte_def)

lemma escapeByte_prefix_inj:
  assumes "escapeByte mode c @ xs = escapeByte mode d @ ys"
  shows "c = d \<and> xs = ys"
proof (cases "shouldEscape c mode")
  case c: True
  show ?thesis
  proof (cases "shouldEscape d mode")
    case True
    with c assms show ?thesis
      by (auto simp: escapeByte_def intro: hex_digits_inj)
  next
    case False
    with c assms have "d = CHR ''%''" by (simp add: escapeByte_def)
    with False show ?thesis using shouldEscape_percent by simp
  qed
next
  case c: False
  show ?thesis
  proof (cases "shouldEscape d mode")
    case True
    with c assms have "c = CHR ''%''" by (simp add: escapeByte_def)
    with c show ?thesis using shouldEscape_percent by simp
  next
    case False
    with c assms show ?thesis by (simp add: escapeByte_def)
  qed
qed

lemma escape_inj: "escape s mode = escape t mode \<Longrightarrow> s = t"
proof (induction s arbitrary: t)
  case Nil
  then show ?case
    by (cases t) (simp_all add: escape_Nil escape_Cons escapeByte_not_Nil)
next
  case (Cons c s)
  show ?case
  proof (cases t)
    case Nil
    with Cons.prems show ?thesis
      by (simp add: escape_Nil escape_Cons escapeByte_not_Nil)
  next
    case (Cons d t')
    with Cons.prems have "escapeByte mode c @ escape s mode = escapeByte mode d @ escape t' mode"
      by (simp add: escape_Cons)
    then have "c = d" and "escape s mode = escape t' mode"
      using escapeByte_prefix_inj by blast+
    with Cons.IH Cons show ?thesis by simp
  qed
qed

lemma escapeByte_no_slash:
  assumes "CHR ''/'' \<noteq> c \<or> shouldEscape c mode"
  shows "CHR ''/'' \<notin> set (escapeByte mode c)"
proof (cases "shouldEscape c mode")
  case True
  have "(of_char c :: nat) < 256" by (simp add: of_char_def)
  then have "(of_char c :: nat) div 16 < 16" "(of_char c :: nat) mod 16 < 16"
    by (simp_all add: less_mult_imp_div_less)
  then have "upperhex ! ((of_char c :: nat) div 16) \<noteq> CHR ''/''"
    and "upperhex ! ((of_char c :: nat) mod 16) \<noteq> CHR ''/''"
    by (simp_all add: upperhex_no_slash)
  with True show ?thesis
    by (auto simp: escapeByte_def)
next
  case False
  with assms show ?thesis by (auto simp: escapeByte_def)
qed

lemma escapeByte_host_no_slash: "CHR ''/'' \<notin> set (escapeByte encodeHost c)"
  by (rule escapeByte_no_slash) (use shouldEscape_slash_host in blast)

lemma escape_host_no_slash: "CHR ''/'' \<notin> set (escape s encodeHost)"
  by (induction s) (simp_all add: escape_Nil escape_Cons escapeByte_host_no_slash)

lemma escape_path_no_slash:
  "CHR ''/'' \<notin> set s \<Longrightarrow> CHR ''/'' \<notin> set (escape s encodePath)"
  by (induction s) (simp_all add: escape_Nil escape_Cons escapeByte_no_slash)

lemma escape_eq_Nil: "escape s mode = [] \<longleftrightarrow> s = []"
  by (cases s) (simp_all add: escape_Nil escape_Cons escapeByte_not_Nil)

lemma split_at_first:
  assumes "c \<notin> set xs" "c \<notin> set xs'" "xs @ c # ys = xs' @ c # ys'"
  shows "xs = xs' \<and> ys = ys'"
  using assms
proof (induction xs arbitrary: xs')
  case Nil
  then show ?case by (cases xs') auto
next
  case (Cons x xs)
  then show ?case by (cases xs') auto
qed

lemma splitSlash_not_Nil: "splitSlash s \<noteq> []"
  by (induction s) (simp_all split: list.splits)

lemma splitSlash_plain: "CHR ''/'' \<notin> set s \<Longrightarrow> splitSlash s = [s]"
  by (induction s) auto

lemma splitSlash_segment:
  "CHR ''/'' \<notin> set s \<Longrightarrow> splitSlash (s @ CHR ''/'' # rest) = s # splitSlash rest"
  by (induction s) auto

lemma path_Join_segments:
  assumes "segment a" "segment i"
  shows "path_Join [''spire'', ''agent'', pluginName, a, i]
           = ''spire/agent/iid_attestor/'' @ a @ ''/'' @ i"
proof -
  let ?p = "''spire/agent/iid_attestor/'' @ a @ ''/'' @ i"
  have j: "strings_Join [''spire'', ''agent'', ''iid_attestor'', a, i] ''/'' = ?p"
    by simp
  have "splitSlash ?p = [''spire'', ''agent'', ''iid_attestor'', a, i]"
  proof -
    have "splitSlash (a @ CHR ''/'' # i) = [a, i]"
      using assms by (simp add: splitSlash_segment splitSlash_plain segment_def)
    then show ?thesis by simp
  qed
  moreover have "cleanElems False [] [''spire'', ''agent'', ''iid_attestor'', a, i]
      = [''spire'', ''agent'', ''iid_attestor'', a, i]"
    using assms by (simp add: segment_def)
  ultimately have "path_Clean ?p = ?p"
    by (simp add: path_Clean_def)
  with j show ?thesis by (simp add: path_Join_def pluginName_def)
qed

lemma escape_prefix_const:
  "escape (''spire/agent/iid_attestor/'' @ a @ ''/'' @ i) encodePath
     = ''spire/agent/iid_attestor/'' @ escape a encodePath @ ''/'' @ escape i encodePath"
proof -
  have "escape ''spire/agent/iid_attestor/'' encodePath = ''spire/agent/iid_attestor/''"
    by (rule escape_plain) (simp add: shouldEscape_def)
  moreover have "escape ''/'' encodePath = ''/''"
    by (rule escape_plain) (simp add: shouldEscape_def)
  ultimately show ?thesis
    by (simp only: escape_append)
qed

lemma URL_String_spiffeID:
  assumes "segment a" "segment i"
  shows "URL_String (spiffeID p a i)
           = ''spiffe://''
             @ (if trustDomain p = '''' then '''' else escape (trustDomain p) encodeHost @ ''/'')
             @ ''spire/agent/iid_attestor/'' @ escape a encodePath @ ''/'' @ escape i encodePath"
proof -
  let ?path = "''spire/agent/iid_attestor/'' @ a @ ''/'' @ i"
  have u: "spiffeID p a i = \<lparr>Scheme = ''spiffe'', Host = trustDomain p, Path = ?path\<rparr>"
    using assms by (simp only: spiffeID_def path_Join_segments Let_def)
  have e: "EscapedPath (spiffeID p a i)
             = ''spire/agent/iid_attestor/'' @ escape a encodePath @ ''/'' @ escape i encodePath"
    unfolding u EscapedPath_def using escape_prefix_const [of a i] by simp
  show ?thesis
    unfolding URL_String_def e unfolding u by (simp add: Let_def)
qed

lemma escaped_tail_inj:
  assumes "segment a" "segment i" "segment a'" "segment i'"
    and "escape a encodePath @ ''/'' @ escape i encodePath
           = escape a' encodePath @ ''/'' @ escape i' encodePath"
  shows "a = a' \<and> i = i'"
proof -
  have n: "CHR ''/'' \<notin> set (escape a encodePath)" and n': "CHR ''/'' \<notin> set (escape a' encodePath)"
    using assms(1,3) by (simp_all add: segment_def escape_path_no_slash)
  have e: "escape a encodePath @ CHR ''/'' # escape i encodePath
           = escape a' encodePath @ CHR ''/'' # escape i' encodePath"
    using assms(5) by simp
  from split_at_first [OF n n' e]
  have "escape a encodePath = escape a' encodePath"
    and "escape i encodePath = escape i' encodePath"
    by simp_all
  then show ?thesis by (simp add: escape_inj)
qed

lemma spiffeID_String_inj:
  assumes seg: "segment a" "segment i" "segment a'" "segment i'"
    and eq: "URL_String (spiffeID p a i) = URL_String (spiffeID p' a' i')"
  shows "trustDomain p = trustDomain p' \<and> a = a' \<and> i = i'"
proof -
  define A where "A = escape a encodePath @ ''/'' @ escape i encodePath"
  define A' where "A' = escape a' encodePath @ ''/'' @ escape i' encodePath"
  define H where "H = escape (trustDomain p) encodeHost"
  define H' where "H' = escape (trustDomain p') encodeHost"
  have l: "URL_String (spiffeID p a i)
      = ''spiffe://'' @ (if trustDomain p = '''' then '''' else H @ ''/'') @ ''spire/agent/iid_attestor/'' @ A"
    unfolding A_def H_def by (rule URL_String_spiffeID [OF seg(1,2)])
  have r: "URL_String (spiffeID p' a' i')
      = ''spiffe://'' @ (if trustDomain p' = '''' then '''' else H' @ ''/'') @ ''spire/agent/iid_attestor/'' @ A'"
    unfolding A'_def H'_def by (rule URL_String_spiffeID [OF seg(3,4)])
  have eq': "(if trustDomain p = '''' then '''' else H @ ''/'') @ ''spire/agent/iid_attestor/'' @ A
      = (if trustDomain p' = '''' then '''' else H' @ ''/'') @ ''spire/agent/iid_attestor/'' @ A'"
    using eq unfolding l r by (simp only: same_append_eq)
  have nH: "CHR ''/'' \<notin> set H" and nH': "CHR ''/'' \<notin> set H'"
    unfolding H_def H'_def by (rule escape_host_no_slash)+
  have spire: "CHR ''/'' \<notin> set ''spire''" by simp
  have tail: "A = A' \<Longrightarrow> a = a' \<and> i = i'"
    unfolding A_def A'_def using escaped_tail_inj [OF seg] by simp
  consider (both_empty) "trustDomain p = ''''" "trustDomain p' = ''''"
    | (both_set) "trustDomain p \<noteq> ''''" "trustDomain p' \<noteq> ''''"
    | (left_empty) "trustDomain p = ''''" "trustDomain p' \<noteq> ''''"
    | (right_empty) "trustDomain p \<noteq> ''''" "trustDomain p' = ''''"
    by blast
  then show ?thesis
  proof cases
    case both_empty
    with eq' have "A = A'" by simp
    with tail both_empty show ?thesis by simp
  next
    case both_set
    with eq' have e: "H @ CHR ''/'' # (''spire/agent/iid_attestor/'' @ A)
        = H' @ CHR ''/'' # (''spire/agent/iid_attestor/'' @ A')"
      by simp
    from split_at_first [OF nH nH' e]
    have "H = H'" and "A = A'" by simp_all
    then have "trustDomain p = trustDomain p'" and "A = A'"
      unfolding H_def H'_def by (simp_all add: escape_inj)
    with tail show ?thesis by simp
  next
    case left_empty
    with eq' have e: "''spire'' @ CHR ''/'' # (''agent/iid_attestor/'' @ A)
        = H' @ CHR ''/'' # (''spire/agent/iid_attestor/'' @ A')"
      by simp
    from split_at_first [OF spire nH' e]
    have "''agent/iid_attestor/'' @ A = ''spire/agent/iid_attestor/'' @ A'" by simp
    then show ?thesis by simp
  next
    case right_empty
    with eq' have e: "H @ CHR ''/'' # (''spire/agent/iid_attestor/'' @ A)
        = ''spire'' @ CHR ''/'' # (''agent/iid_attestor/'' @ A')"
      by simp
    from split_at_first [OF nH spire e]
    have "''spire/agent/iid_attestor/'' @ A = ''agent/iid_attestor/'' @ A'" by simp
    then show ?thesis by simp
  qed
qed

lemma spiffeID_String_plain:
  assumes "segment a" "segment i" "trustDomain p \<noteq> ''''"
    and "list_all (\<lambda>c. \<not> shouldEscape c encodeHost) (trustDomain p)"
    and "list_all (\<lambda>c. \<not> shouldEscape c encodePath) a"
    and "list_all (\<lambda>c. \<not> shouldEscape c encodePath) i"
  shows "URL_String (spiffeID p a i)
           = ''spiffe://'' @ trustDomain p @ ''/spire/agent/iid_attestor/'' @ a @ ''/'' @ i"
  using assms by (simp add: URL_String_spiffeID escape_plain)

subsection \<open>The stages of Attest\<close>

lemma Attest_reachesQuery:
  assumes "reachesQuery env p req attestedData doc"
  shows "Attest env p req =
           ((case ec2_DescribeInstances env (Region doc) [InstanceId doc] of
               Inl err \<Rightarrow> denied ''querying AWS via describe-instances'' err
             | Inr result \<Rightarrow> Attest_instance env p doc result),
            queryCalls)"
  using assms
  by (auto simp: reachesQuery_def decodes_def signatureVerifies_def Attest_def Attest_locked_def
        queryCalls_def Let_def split: option.splits sum.splits)

lemma Attest_query_error:
  assumes "reachesQuery env p req attestedData doc"
    and "ec2_DescribeInstances env (Region doc) [InstanceId doc] = Inl err"
  shows "Attest env p req =
           (Return (\<lparr>Valid = False, BaseSPIFFEID = ''''\<rparr>,
                    Some (attestationStepError ''querying AWS via describe-instances'' err)),
            queryCalls)"
  by (simp add: Attest_reachesQuery [OF assms(1)] assms(2) denied_def)

lemma Attest_reachesTopology:
  assumes "reachesTopology env p req attestedData doc instance"
  shows "Attest env p req = (Attest_topology env p doc instance, queryCalls)"
proof -
  from assms have q: "reachesQuery env p req attestedData doc"
    and d: "describedInstance env doc instance"
    by (simp_all add: reachesTopology_def)
  from d obtain result where r: "ec2_DescribeInstances env (Region doc) [InstanceId doc] = Inr result"
    by (cases "ec2_DescribeInstances env (Region doc) [InstanceId doc]")
       (simp_all add: describedInstance_def)
  from d r obtain reservation rs where rs: "Reservations result = Some reservation # rs"
    by (cases "Reservations result"; cases "hd (Reservations result)")
       (simp_all add: describedInstance_def)
  from d r rs obtain insts where "Instances reservation = Some instance # insts"
    by (cases "Instances reservation"; cases "hd (Instances reservation)")
       (simp_all add: describedInstance_def)
  with rs have i: "Attest_instance env p doc result = Attest_topology env p doc instance"
    by (simp add: Attest_instance_def)
  show ?thesis
    by (simp add: Attest_reachesQuery [OF q] r i)
qed

lemma rootDeviceIndex_none:
  "list_all (otherDevice rootName) bdms \<Longrightarrow> rootDeviceIndex bdms (Some rootName) i = Return (- 1)"
  by (induction bdms arbitrary: i) (auto simp: otherDevice_def split: option.splits)

lemma rootDeviceIndex_first:
  "list_all (otherDevice rootName) preceding \<Longrightarrow> DeviceName m = Some rootName \<Longrightarrow>
     rootDeviceIndex (preceding @ Some m # following) (Some rootName) i = Return (i + int (length preceding))"
  by (induction preceding arbitrary: i) (auto simp: otherDevice_def split: option.splits)

lemma Attest_rootDevice_none:
  assumes "list_all (otherDevice rootName) bdms"
  shows "Attest_rootDevice env p doc bdms (Some rootName) t0 =
           denied ''locating the root device block mapping''
             (Errorf (''could not locate a device mapping with name '%s'' @ [CHR 0x27])
                [ArgStringPtr (Some rootName)])"
  by (simp add: Attest_rootDevice_def rootDeviceIndex_none [OF assms])

lemma Attest_rootDevice_first:
  assumes "list_all (otherDevice rootName) preceding" "DeviceName m = Some rootName"
  shows "Attest_rootDevice env p doc (preceding @ Some m # following) (Some rootName) t0 =
           (case Ebs m of
              None \<Rightarrow> Panic NilPointerDereference
            | Some ebs \<Rightarrow> Attest_disparity env p doc t0 (EbsAttachTime ebs))"
  by (simp add: Attest_rootDevice_def rootDeviceIndex_first [OF assms] nth_append)

lemma sint_diff_small:
  fixes a b :: "64 word"
  assumes "\<bar>sint a - sint b\<bar> < 2 ^ 53"
  shows "sint (a - b) = sint a - sint b"
proof -
  have "sint (a - b) = signed_take_bit 63 (sint a - sint b)"
    by (simp add: sint_word_ariths)
  also have "\<dots> = sint a - sint b"
    using assms by (intro signed_take_bit_int_eq_self) simp_all
  finally show ?thesis .
qed

lemma attachTimeDisparity_small:
  assumes "disparity t0 t1 < 2 ^ 53"
  shows "attachTimeDisparity env t0 t1 = word_of_int (disparity t0 t1)"
    and "sint (attachTimeDisparity env t0 t1) = disparity t0 t1"
proof -
  have s: "sint (Unix t0 - Unix t1) = sint (Unix t0) - sint (Unix t1)"
    using assms by (intro sint_diff_small) (simp add: disparity_def)
  have "\<bar>sint (Unix t0) - sint (Unix t1)\<bar> < 2 ^ 53"
    using assms by (simp add: disparity_def)
  then have f: "float64_of_int64 (Unix t0 - Unix t1) = sint (Unix t0) - sint (Unix t1)"
    by (simp add: float64_of_int64_def s Let_def)
  have "- (2 ^ 63) \<le> disparity t0 t1" and "disparity t0 t1 < 2 ^ 63"
    using assms by (simp_all add: disparity_def)
  then have "int64_of_float64 (int64_out_of_range env) (disparity t0 t1)
               = word_of_int (disparity t0 t1)"
    unfolding int64_of_float64_def by simp
  then show w: "attachTimeDisparity env t0 t1 = word_of_int (disparity t0 t1)"
    by (simp add: attachTimeDisparity_def f math_Abs_def disparity_def)
  have "sint (word_of_int (disparity t0 t1) :: 64 word) = signed_take_bit 63 (disparity t0 t1)"
    by (simp add: sint_sbintrunc')
  also have "\<dots> = disparity t0 t1"
    using assms by (intro signed_take_bit_int_eq_self) (simp_all add: disparity_def)
  finally show "sint (attachTimeDisparity env t0 t1) = disparity t0 t1"
    by (simp add: w)
qed

lemma Attest_disparity_small:
  assumes "disparity t0 t1 < 2 ^ 53"
  shows "Attest_disparity env p doc (Some t0) (Some t1) =
           (if 60 < disparity t0 t1
            then denied ''checking the disparity device attach times''
                   (Errorf ''root BlockDeviceMapping and NetworkInterface[0] attach times differ by %d seconds''
                      [ArgInt64 (word_of_int (disparity t0 t1))])
            else Return (\<lparr>Valid = True,
                           BaseSPIFFEID = URL_String (spiffeID p (AccountId doc) (InstanceId doc))\<rparr>,
                         None))"
proof -
  define d where "d = attachTimeDisparity env t0 t1"
  have sd: "sint d = disparity t0 t1" and wd: "d = word_of_int (disparity t0 t1)"
    unfolding d_def by (rule attachTimeDisparity_small [OF assms])+
  have "Attest_disparity env p doc (Some t0) (Some t1) =
           (if 60 < sint d
            then denied ''checking the disparity device attach times''
                   (Errorf ''root BlockDeviceMapping and NetworkInterface[0] attach times differ by %d seconds''
                      [ArgInt64 d])
            else Return (\<lparr>Valid = True,
                           BaseSPIFFEID = URL_String (spiffeID p (AccountId doc) (InstanceId doc))\<rparr>,
                         None))"
    by (simp add: Attest_disparity_def Let_def d_def maxSecondsBetweenDeviceAttachments_def)
  then show ?thesis
    unfolding sd unfolding wd .
qed

lemma Attest_topology_primary:
  assumes "primaryAttachment instance attachment" "DeviceIndex attachment = Some deviceIndex"
  shows "Attest_topology env p doc instance =
           (if deviceIndex \<noteq> 0
            then denied ''verifying the EC2 instance's NetworkInterface[0].DeviceIndex is 0''
                   (Errorf ''DeviceIndex is %d'' [ArgInt64 deviceIndex])
            else Attest_rootDevice env p doc (BlockDeviceMappings instance)
                   (RootDeviceName instance) (AttachTime attachment))"
proof -
  from assms(1) obtain iface others where "NetworkInterfaces instance = Some iface # others"
    and "Attachment iface = Some attachment"
    by (cases "NetworkInterfaces instance"; cases "hd (NetworkInterfaces instance)")
       (simp_all add: primaryAttachment_def)
  with assms(2) show ?thesis
    by (simp add: Attest_topology_def)
qed

lemma Attest_disparity_not_topology:
  "Attest_disparity env p doc t0 t1 \<noteq>
     denied ''verifying the EC2 instance's NetworkInterface[0].DeviceIndex is 0'' cause"
  by (simp add: Attest_disparity_def denied_def attestationStepError_def Let_def
        split: option.splits)

lemma Attest_rootDevice_not_topology:
  "Attest_rootDevice env p doc bdms rootDeviceName t0 \<noteq>
     denied ''verifying the EC2 instance's NetworkInterface[0].DeviceIndex is 0'' cause"
proof (cases "rootDeviceIndex bdms rootDeviceName 0")
  case (Panic pn)
  then show ?thesis by (simp add: Attest_rootDevice_def denied_def)
next
  case (Return idx)
  then show ?thesis
    using Attest_disparity_not_topology
    by (simp add: Attest_rootDevice_def Let_def split: option.splits)
       (simp add: denied_def attestationStepError_def)
qed

lemma Attest_first_root:
  assumes "reachesTopology env p req attestedData doc instance"
    and "primaryAttachment instance attachment" and "DeviceIndex attachment = Some 0"
    and "firstRootMapping instance rootName preceding m following"
  shows "fst (Attest env p req) =
           (case Ebs m of
              None \<Rightarrow> Panic NilPointerDereference
            | Some ebs \<Rightarrow> Attest_disparity env p doc (AttachTime attachment) (EbsAttachTime ebs))"
proof -
  from assms(4) have r: "RootDeviceName instance = Some rootName"
    and b: "BlockDeviceMappings instance = preceding @ Some m # following"
    and o: "list_all (otherDevice rootName) preceding" and n: "DeviceName m = Some rootName"
    by (simp_all add: firstRootMapping_def)
  show ?thesis
    by (simp add: Attest_reachesTopology [OF assms(1)] Attest_topology_primary [OF assms(2,3)]
          r b Attest_rootDevice_first [OF o n])
qed

subsection \<open>The checks of Configure\<close>

lemma Configure_success:
  assumes "snd (Configure env p req) = Return (resp, None)"
  shows "\<exists>key. embeddedPublicKey env = Some (RSAPublicKey key)
           \<and> awsCaCertPublicKey (fst (Configure env p req)) = Some key"
  using assms
  by (auto simp: Configure_def embeddedPublicKey_def Let_def
        split: sum.splits option.splits crypto_PublicKey.splits)

lemma Configure_failure:
  assumes "snd (Configure env p req) \<noteq> Return (\<lparr>ErrorList = []\<rparr>, None)"
  shows "fst (Configure env p req) = p"
  using assms
  by (auto simp: Configure_def Let_def
        split: sum.splits option.splits crypto_PublicKey.splits)

lemma Configure_not_RSA:
  assumes "hcl_Parse env (Configuration req) = Inr hclTree"
    and "hcl_DecodeObject env hclTree = Inr config"
    and "embeddedPublicKey env = Some k" and "\<not> isRSA k"
  shows "Configure env p req =
           (p, Return (\<lparr>ErrorList = []\<rparr>,
                       Some (Errorf ''Error extracting the AWS CA Certificate's public key in the AWS IID Attestor: %v''
                               [ArgNil])))"
  using assms
  by (auto simp: Configure_def embeddedPublicKey_def isRSA_def Let_def
        split: sum.splits option.splits crypto_PublicKey.splits)

subsection \<open>The fake environment\<close>

lemma fake_decodes: "decodes (fake_env response) (fake_request attestedBefore) fake_attestedData fake_doc"
  by (simp add: decodes_def fake_env_def fake_request_def fake_attestedData_def)

lemma fake_signatureVerifies:
  "signatureVerifies (fake_env response) (fake_plugin domain) fake_attestedData"
  by (simp add: signatureVerifies_def fake_env_def fake_plugin_def fake_attestedData_def)

lemma fake_reachesQuery:
  "reachesQuery (fake_env response) (fake_plugin domain) (fake_request False)
     fake_attestedData fake_doc"
  by (simp add: reachesQuery_def fake_decodes fake_signatureVerifies)
     (simp add: fake_env_def fake_request_def)

lemma fake_describe:
  "ec2_DescribeInstances (fake_env response) (Region fake_doc) [InstanceId fake_doc] = response"
  by (simp add: fake_env_def fake_doc_def)

lemma fake_reachesTopology:
  "reachesTopology (fake_env (fake_response instance)) (fake_plugin domain) (fake_request False)
     fake_attestedData fake_doc instance"
  by (simp add: reachesTopology_def fake_reachesQuery describedInstance_def fake_describe
        fake_response_def)

lemma fake_primaryAttachment:
  "primaryAttachment (fake_instance (fake_iface deviceIndex seconds # others) volumes)
     (fake_attachment deviceIndex seconds)"
  by (simp add: primaryAttachment_def fake_instance_def fake_iface_def)

lemma fake_firstRootMapping:
  "firstRootMapping
     (fake_instance ifaces [Some (fake_volume ''/dev/xvdb'' s0), Some (fake_volume ''/dev/xvda'' s1),
                            Some (fake_volume ''/dev/xvda'' s2)])
     ''/dev/xvda'' [Some (fake_volume ''/dev/xvdb'' s0)] (fake_volume ''/dev/xvda'' s1)
     [Some (fake_volume ''/dev/xvda'' s2)]"
  by (simp add: firstRootMapping_def fake_instance_def fake_volume_def otherDevice_def)

lemma fake_disparity:
  "disparity \<lparr>unixSec = a, nsec = 0\<rparr> \<lparr>unixSec = b, nsec = 0\<rparr> = \<bar>sint a - sint b\<bar>"
  by (simp add: disparity_def Unix_def)

lemma fake_otherDevices:
  "list_all (otherDevice ''/dev/xvda'')
     [Some (fake_volume ''/dev/xvdb'' s0), Some (fake_volume ''/dev/xvdc'' s1)]"
  by (simp add: otherDevice_def fake_volume_def)

lemma fake_instance_fields:
  "NetworkInterfaces (fake_instance ifaces volumes) = ifaces"
  "BlockDeviceMappings (fake_instance ifaces volumes) = volumes"
  "RootDeviceName (fake_instance ifaces volumes) = Some ''/dev/xvda''"
  by (simp_all add: fake_instance_def)

lemma fake_attachment_fields:
  "DeviceIndex (fake_attachment deviceIndex seconds) = Some deviceIndex"
  "AttachTime (fake_attachment deviceIndex seconds) = Some \<lparr>unixSec = seconds, nsec = 0\<rparr>"
  by (simp_all add: fake_attachment_def)

lemma fake_volume_fields:
  "DeviceName (fake_volume name seconds) = Some name"
  "Ebs (fake_volume name seconds) = Some (fake_ebs seconds)"
  "EbsAttachTime (fake_ebs seconds) = Some \<lparr>unixSec = seconds, nsec = 0\<rparr>"
  by (simp_all add: fake_volume_def fake_ebs_def)

lemma fake_booted_reachesTopology:
  "reachesTopology (fake_env (fake_response (fake_booted s0 s1))) (fake_plugin domain)
     (fake_request False) fake_attestedData fake_doc (fake_booted s0 s1)"
  by (rule fake_reachesTopology)

lemma fake_booted_primaryAttachment:
  "primaryAttachment (fake_booted s0 s1) (fake_attachment 0 s0)"
  unfolding fake_booted_def by (rule fake_primaryAttachment)

lemma fake_booted_firstRootMapping:
  "firstRootMapping (fake_booted s0 s1) ''/dev/xvda'' [] (fake_volume ''/dev/xvda'' s1) []"
  by (simp add: firstRootMapping_def fake_booted_def fake_instance_def fake_volume_def)

lemma fake_identity:
  "URL_String (spiffeID (fake_plugin ''example.org'') (AccountId fake_doc) (InstanceId fake_doc))
     = ''spiffe://example.org/spire/agent/iid_attestor/123456789012/i-0abc''"
  by (simp add: URL_String_def spiffeID_def path_Join_def path_Clean_def pluginName_def
        EscapedPath_def escape_def shouldEscape_def fake_plugin_def fake_doc_def)

lemma fake_configure_embedded:
  "embeddedPublicKey (fake_configure_env k) = Some k"
  by (simp add: embeddedPublicKey_def fake_configure_env_def)

lemma fake_configure_parse:
  "hcl_Parse (fake_configure_env k) (''trust_domain = example.org'' @ rest)
     = Inr \<lparr>TrustDomain = takeWhile (\<lambda>c. c \<noteq> CHR ''\<newline>'') (''example.org'' @ rest)\<rparr>"
  by (simp add: fake_configure_env_def)

lemma fake_configure_run:
  "Configure (fake_configure_env (RSAPublicKey key)) p fake_configure_request
      = (p\<lparr>trustDomain := ''example.org'', awsCaCertPublicKey := Some key\<rparr>,
         Return (\<lparr>ErrorList = []\<rparr>, None))"
proof -
  have h: "hcl_Parse (fake_configure_env (RSAPublicKey key)) (Configuration fake_configure_request)
     = Inr \<lparr>TrustDomain = ''example.org''\<rparr>"
    by (simp add: fake_configure_env_def fake_configure_request_def)
  show ?thesis
    unfolding Configure_def h by (simp add: fake_configure_env_def)
qed

lemma fake_configure_parsed:
  "hcl_Parse (fake_configure_env k) (Configuration fake_configure_request)
     = Inr \<lparr>TrustDomain = ''example.org''\<rparr>"
  "hcl_DecodeObject (fake_configure_env k) \<lparr>TrustDomain = ''example.org''\<rparr>
     = Inr \<lparr>TrustDomain = ''example.org''\<rparr>"
  by (simp_all add: fake_configure_env_def fake_configure_request_def)

subsection \<open>Claims about Attest\<close>

text \<open>
  C1, as stated, fails. The identity is what \<^verbatim>\<open>(*url.URL).String\<close> prints for the host
  \<^verbatim>\<open>trustDomain\<close> and the path that \<^verbatim>\<open>path.Join\<close> cleans. \<^verbatim>\<open>Configure\<close> takes any trust
  domain, also the empty one of a configuration that sets none; then a request that meets
  every condition of the claim is attested with an identity in which \<^verbatim>\<open>spire\<close> stands
  where the host should, not the string
  \<^verbatim>\<open>spiffe:///spire/agent/iid_attestor/123456789012/i-0abc\<close> of the claim.
\<close>

theorem attest_identity_template_counterexample:
  "fst (Configure (fake_configure_env (RSAPublicKey fake_key)) New \<lparr>Configuration = ''trust_domain = ''\<rparr>)
     = fake_plugin ''''
   \<and> reachesTopology (fake_env (fake_response (fake_booted 1500000000 1500000002))) (fake_plugin '''')
     (fake_request False) fake_attestedData fake_doc (fake_booted 1500000000 1500000002)
   \<and> primaryAttachment (fake_booted 1500000000 1500000002) (fake_attachment 0 1500000000)
   \<and> firstRootMapping (fake_booted 1500000000 1500000002) ''/dev/xvda'' []
        (fake_volume ''/dev/xvda'' 1500000002) []
   \<and> disparity \<lparr>unixSec = 1500000000, nsec = 0\<rparr> \<lparr>unixSec = 1500000002, nsec = 0\<rparr> = 2
   \<and> fst (Attest (fake_env (fake_response (fake_booted 1500000000 1500000002))) (fake_plugin '''')
             (fake_request False))
       = Return (\<lparr>Valid = True,
                  BaseSPIFFEID = ''spiffe://spire/agent/iid_attestor/123456789012/i-0abc''\<rparr>, None)
   \<and> ''spiffe://spire/agent/iid_attestor/123456789012/i-0abc''
       \<noteq> ''spiffe://'' @ trustDomain (fake_plugin '''') @ ''/spire/agent/iid_attestor/''
           @ AccountId fake_doc @ ''/'' @ InstanceId fake_doc"
proof -
  have i: "URL_String (spiffeID (fake_plugin '''') (AccountId fake_doc) (InstanceId fake_doc))
     = ''spiffe://spire/agent/iid_attestor/123456789012/i-0abc''"
    by (simp add: URL_String_def spiffeID_def path_Join_def path_Clean_def pluginName_def
        EscapedPath_def escape_def shouldEscape_def fake_plugin_def fake_doc_def)
  have d: "disparity \<lparr>unixSec = 1500000000, nsec = 0\<rparr> \<lparr>unixSec = 1500000002, nsec = 0\<rparr> = 2"
    by (simp add: fake_disparity)
  have "fst (Attest (fake_env (fake_response (fake_booted 1500000000 1500000002))) (fake_plugin '''')
             (fake_request False))
      = Attest_disparity (fake_env (fake_response (fake_booted 1500000000 1500000002))) (fake_plugin '''')
          fake_doc (Some \<lparr>unixSec = 1500000000, nsec = 0\<rparr>) (Some \<lparr>unixSec = 1500000002, nsec = 0\<rparr>)"
    by (simp add: Attest_first_root [OF fake_booted_reachesTopology fake_booted_primaryAttachment
          fake_attachment_fields(1) fake_booted_firstRootMapping]
          fake_volume_fields fake_attachment_fields)
  also have "\<dots> = Return (\<lparr>Valid = True,
                  BaseSPIFFEID = ''spiffe://spire/agent/iid_attestor/123456789012/i-0abc''\<rparr>, None)"
    by (simp add: Attest_disparity_small d i)
  finally have a: "fst (Attest (fake_env (fake_response (fake_booted 1500000000 1500000002)))
             (fake_plugin '''') (fake_request False))
       = Return (\<lparr>Valid = True,
                  BaseSPIFFEID = ''spiffe://spire/agent/iid_attestor/123456789012/i-0abc''\<rparr>, None)" .
  have n: "''spiffe://spire/agent/iid_attestor/123456789012/i-0abc''
       \<noteq> ''spiffe://'' @ trustDomain (fake_plugin '''') @ ''/spire/agent/iid_attestor/''
           @ AccountId fake_doc @ ''/'' @ InstanceId fake_doc"
    by (simp add: fake_plugin_def fake_doc_def)
  have h: "hcl_Parse (fake_configure_env (RSAPublicKey fake_key))
             (Configuration \<lparr>Configuration = ''trust_domain = ''\<rparr>) = Inr \<lparr>TrustDomain = ''''\<rparr>"
    by (simp add: fake_configure_env_def)
  have c: "fst (Configure (fake_configure_env (RSAPublicKey fake_key)) New
                  \<lparr>Configuration = ''trust_domain = ''\<rparr>) = fake_plugin ''''"
    unfolding Configure_def h by (simp add: fake_configure_env_def New_def fake_plugin_def)
  from c fake_booted_reachesTopology fake_booted_primaryAttachment fake_booted_firstRootMapping d a n
  show ?thesis by (intro conjI)
qed

text \<open>
  C1, amended. For every request whose payload and document decode, that was not attested
  before, whose signature verifies against the plugin's key, and for which the provider
  returns a descriptor whose first network interface has device index 0, with a first
  block-device mapping of the root device's name and attach times at most 60 seconds
  apart, \<^verbatim>\<open>Attest\<close> returns \<^verbatim>\<open>Valid: true\<close> and the identity that \<^verbatim>\<open>spiffeID\<close> prints for the
  plugin's trust domain and the document's account and instance ids. That identity is
  exactly \<^verbatim>\<open>spiffe://{trustDomain}/spire/agent/iid_attestor/{accountId}/{instanceId}\<close> when
  the trust domain is not empty and has no byte that a host escapes, and the account and
  instance ids are not empty, are neither \<^verbatim>\<open>.\<close> nor \<^verbatim>\<open>..\<close>, and have no slash and no byte
  that a path escapes.
\<close>

theorem attest_valid_identity:
  assumes "reachesTopology env p req attestedData doc instance"
    and "primaryAttachment instance attachment" and "DeviceIndex attachment = Some 0"
    and "AttachTime attachment = Some t0"
    and "firstRootMapping instance rootName preceding m following"
    and "Ebs m = Some ebs" and "EbsAttachTime ebs = Some t1"
    and "disparity t0 t1 \<le> 60"
  shows "fst (Attest env p req) =
           Return (\<lparr>Valid = True,
                     BaseSPIFFEID = URL_String (spiffeID p (AccountId doc) (InstanceId doc))\<rparr>,
                   None)
         \<and> (plainHost (trustDomain p) \<and> plainSegment (AccountId doc) \<and> plainSegment (InstanceId doc)
              \<longrightarrow> URL_String (spiffeID p (AccountId doc) (InstanceId doc))
                    = ''spiffe://'' @ trustDomain p @ ''/spire/agent/iid_attestor/''
                        @ AccountId doc @ ''/'' @ InstanceId doc)"
proof -
  have "fst (Attest env p req) = Attest_disparity env p doc (Some t0) (Some t1)"
    by (simp add: Attest_first_root [OF assms(1,2,3,5)] assms(4,6,7))
  moreover have "disparity t0 t1 < 2 ^ 53"
    using assms(8) by simp
  ultimately have "fst (Attest env p req) =
           Return (\<lparr>Valid = True,
                     BaseSPIFFEID = URL_String (spiffeID p (AccountId doc) (InstanceId doc))\<rparr>,
                   None)"
    using assms(8) by (simp add: Attest_disparity_small)
  then show ?thesis
    by (simp add: plainHost_def plainSegment_def spiffeID_String_plain)
qed

text \<open>A twelve-digit account, an instance id and a DNS name as trust domain.\<close>

theorem attest_valid_identity_witness:
  "disparity \<lparr>unixSec = 1500000000, nsec = 0\<rparr> \<lparr>unixSec = 1500000002, nsec = 0\<rparr> \<le> 60
   \<and> plainHost (trustDomain (fake_plugin ''example.org''))
   \<and> plainSegment (AccountId fake_doc) \<and> plainSegment (InstanceId fake_doc)
   \<and> fst (Attest (fake_env (fake_response (fake_booted 1500000000 1500000002)))
             (fake_plugin ''example.org'') (fake_request False))
       = Return (\<lparr>Valid = True,
                  BaseSPIFFEID = ''spiffe://example.org/spire/agent/iid_attestor/123456789012/i-0abc''\<rparr>,
                None)"
proof -
  have d: "disparity \<lparr>unixSec = 1500000000, nsec = 0\<rparr> \<lparr>unixSec = 1500000002, nsec = 0\<rparr> \<le> 60"
    by (simp add: fake_disparity)
  have h: "plainHost (trustDomain (fake_plugin ''example.org''))"
    by (simp add: plainHost_def fake_plugin_def shouldEscape_def)
  have a: "plainSegment (AccountId fake_doc)" and i: "plainSegment (InstanceId fake_doc)"
    by (simp_all add: plainSegment_def segment_def fake_doc_def shouldEscape_def)
  from attest_valid_identity
         [OF fake_booted_reachesTopology fake_booted_primaryAttachment
             fake_attachment_fields(1) fake_attachment_fields(2)
             fake_booted_firstRootMapping fake_volume_fields(2) fake_volume_fields(3) d,
          of "''example.org''"] h a i
  have "fst (Attest (fake_env (fake_response (fake_booted 1500000000 1500000002)))
             (fake_plugin ''example.org'') (fake_request False))
       = Return (\<lparr>Valid = True,
                  BaseSPIFFEID = ''spiffe://'' @ trustDomain (fake_plugin ''example.org'')
                     @ ''/spire/agent/iid_attestor/'' @ AccountId fake_doc @ ''/'' @ InstanceId fake_doc\<rparr>,
                None)"
    by (simp only: simp_thms)
  then have "fst (Attest (fake_env (fake_response (fake_booted 1500000000 1500000002)))
             (fake_plugin ''example.org'') (fake_request False))
       = Return (\<lparr>Valid = True,
                  BaseSPIFFEID = ''spiffe://example.org/spire/agent/iid_attestor/123456789012/i-0abc''\<rparr>,
                None)"
    by (simp add: fake_plugin_def fake_doc_def)
  with d h a i show ?thesis by (intro conjI)
qed

text \<open>
  C2. When the request says the document was attested before and the payload and the
  document decode, \<^verbatim>\<open>Attest\<close> returns \<^verbatim>\<open>Valid: false\<close> with the error of the step
  "validating the IID" (the spec's ReplayDetected), whatever the environment's hash,
  base64 and RSA functions and the plugin's key are; the run makes the two unmarshal
  calls and no other, so the document is not hashed and the signature is neither
  decoded nor verified.
\<close>

theorem attest_replay_denied_before_signature:
  assumes "decodes env req attestedData doc" and "AttestedBefore req"
  shows "Attest env p req =
           (Return (\<lparr>Valid = False, BaseSPIFFEID = ''''\<rparr>,
                    Some (attestationStepError ''validating the IID''
                            (LibErr ''the IID has been used and is no longer valid''))),
            [JsonUnmarshal, JsonUnmarshal])
         \<and> Sha256Sum256 \<notin> set (snd (Attest env p req))
         \<and> Base64DecodeString \<notin> set (snd (Attest env p req))
         \<and> RsaVerifyPKCS1v15 \<notin> set (snd (Attest env p req))"
  using assms
  by (auto simp: decodes_def Attest_def denied_def split: option.splits)

text \<open>A replayed request whose signature would have verified.\<close>

theorem attest_replay_denied_before_signature_witness:
  "decodes (fake_env (Inl (LibErr ''unreachable''))) (fake_request True) fake_attestedData fake_doc
   \<and> AttestedBefore (fake_request True)
   \<and> signatureVerifies (fake_env (Inl (LibErr ''unreachable''))) (fake_plugin ''example.org'')
        fake_attestedData
   \<and> Attest (fake_env (Inl (LibErr ''unreachable''))) (fake_plugin ''example.org'') (fake_request True) =
           (Return (\<lparr>Valid = False, BaseSPIFFEID = ''''\<rparr>,
                    Some (attestationStepError ''validating the IID''
                            (LibErr ''the IID has been used and is no longer valid''))),
            [JsonUnmarshal, JsonUnmarshal])"
proof -
  have d: "decodes (fake_env (Inl (LibErr ''unreachable''))) (fake_request True) fake_attestedData fake_doc"
    by (rule fake_decodes)
  have b: "AttestedBefore (fake_request True)"
    by (simp add: fake_request_def)
  from attest_replay_denied_before_signature [OF d b] d b fake_signatureVerifies
  show ?thesis by blast
qed

text \<open>
  C3. The spec has \<^verbatim>\<open>Attest\<close> deny with ProviderQueryFailed when the provider's response
  holds no reservation or no instance. The code indexes \<^verbatim>\<open>Reservations[0]\<close> and
  \<^verbatim>\<open>Instances[0]\<close> with no check (line 138): on a response with no reservation, and
  on one whose first reservation has no instance, the call panics with an index out of
  range and returns nothing.
\<close>

theorem attest_empty_response_panics:
  "fst (Attest (fake_env (Inr \<lparr>Reservations = []\<rparr>)) (fake_plugin ''example.org'') (fake_request False))
     = Panic IndexOutOfRange
   \<and> fst (Attest (fake_env (Inr \<lparr>Reservations = [Some \<lparr>Instances = []\<rparr>]\<rparr>)) (fake_plugin ''example.org'')
            (fake_request False))
     = Panic IndexOutOfRange"
  by (simp add: Attest_reachesQuery [OF fake_reachesQuery] fake_describe Attest_instance_def)

text \<open>
  C4. For a call that reaches the disparity step, with the disparity the absolute
  difference in whole seconds of the attach times of the first network interface and of
  the root block device: at a disparity of exactly 60 seconds the attestation succeeds,
  at 61 seconds \<^verbatim>\<open>Attest\<close> returns \<^verbatim>\<open>Valid: false\<close> with the error of the step "checking
  the disparity device attach times" (the spec's AttachTimeDisparity), and at 0 seconds
  the attestation succeeds.
\<close>

theorem attest_disparity_boundary:
  assumes "reachesTopology env p req attestedData doc instance"
    and "primaryAttachment instance attachment" and "DeviceIndex attachment = Some 0"
    and "AttachTime attachment = Some t0"
    and "firstRootMapping instance rootName preceding m following"
    and "Ebs m = Some ebs" and "EbsAttachTime ebs = Some t1"
  shows "(disparity t0 t1 = 60 \<longrightarrow>
            fst (Attest env p req) =
              Return (\<lparr>Valid = True,
                        BaseSPIFFEID = URL_String (spiffeID p (AccountId doc) (InstanceId doc))\<rparr>,
                      None))
         \<and> (disparity t0 t1 = 61 \<longrightarrow>
            fst (Attest env p req) =
              Return (\<lparr>Valid = False, BaseSPIFFEID = ''''\<rparr>,
                      Some (attestationStepError ''checking the disparity device attach times''
                              (Errorf ''root BlockDeviceMapping and NetworkInterface[0] attach times differ by %d seconds''
                                 [ArgInt64 61]))))
         \<and> (disparity t0 t1 = 0 \<longrightarrow>
            fst (Attest env p req) =
              Return (\<lparr>Valid = True,
                        BaseSPIFFEID = URL_String (spiffeID p (AccountId doc) (InstanceId doc))\<rparr>,
                      None))"
proof -
  have a: "fst (Attest env p req) = Attest_disparity env p doc (Some t0) (Some t1)"
    by (simp add: Attest_first_root [OF assms(1,2,3,5)] assms(4,6,7))
  have "disparity t0 t1 < 2 ^ 53 \<Longrightarrow>
          fst (Attest env p req) =
           (if 60 < disparity t0 t1
            then denied ''checking the disparity device attach times''
                   (Errorf ''root BlockDeviceMapping and NetworkInterface[0] attach times differ by %d seconds''
                      [ArgInt64 (word_of_int (disparity t0 t1))])
            else Return (\<lparr>Valid = True,
                           BaseSPIFFEID = URL_String (spiffeID p (AccountId doc) (InstanceId doc))\<rparr>,
                         None))"
    unfolding a by (rule Attest_disparity_small)
  then show ?thesis
    by (simp add: denied_def)
qed

text \<open>The root volume 60 seconds after the interface, 61 seconds before it, and with it.\<close>

theorem attest_disparity_boundary_witness:
  "disparity \<lparr>unixSec = 1500000000, nsec = 0\<rparr> \<lparr>unixSec = 1500000060, nsec = 0\<rparr> = 60
   \<and> fst (Attest (fake_env (fake_response (fake_booted 1500000000 1500000060)))
             (fake_plugin ''example.org'') (fake_request False))
       = Return (\<lparr>Valid = True,
                  BaseSPIFFEID = ''spiffe://example.org/spire/agent/iid_attestor/123456789012/i-0abc''\<rparr>,
                None)
   \<and> disparity \<lparr>unixSec = 1500000061, nsec = 0\<rparr> \<lparr>unixSec = 1500000000, nsec = 0\<rparr> = 61
   \<and> fst (Attest (fake_env (fake_response (fake_booted 1500000061 1500000000)))
             (fake_plugin ''example.org'') (fake_request False))
       = Return (\<lparr>Valid = False, BaseSPIFFEID = ''''\<rparr>,
                Some (attestationStepError ''checking the disparity device attach times''
                        (Errorf ''root BlockDeviceMapping and NetworkInterface[0] attach times differ by %d seconds''
                           [ArgInt64 61])))
   \<and> disparity \<lparr>unixSec = 1500000000, nsec = 0\<rparr> \<lparr>unixSec = 1500000000, nsec = 0\<rparr> = 0
   \<and> fst (Attest (fake_env (fake_response (fake_booted 1500000000 1500000000)))
             (fake_plugin ''example.org'') (fake_request False))
       = Return (\<lparr>Valid = True,
                  BaseSPIFFEID = ''spiffe://example.org/spire/agent/iid_attestor/123456789012/i-0abc''\<rparr>,
                None)"
proof -
  have d60: "disparity \<lparr>unixSec = 1500000000, nsec = 0\<rparr> \<lparr>unixSec = 1500000060, nsec = 0\<rparr> = 60"
    and d61: "disparity \<lparr>unixSec = 1500000061, nsec = 0\<rparr> \<lparr>unixSec = 1500000000, nsec = 0\<rparr> = 61"
    and d0: "disparity \<lparr>unixSec = 1500000000, nsec = 0\<rparr> \<lparr>unixSec = 1500000000, nsec = 0\<rparr> = 0"
    by (simp_all add: fake_disparity)
  note b = attest_disparity_boundary
             [OF fake_booted_reachesTopology fake_booted_primaryAttachment
                 fake_attachment_fields(1) fake_attachment_fields(2)
                 fake_booted_firstRootMapping fake_volume_fields(2) fake_volume_fields(3)]
  from b [of 1500000000 1500000060 "''example.org''"] d60
  have 1: "fst (Attest (fake_env (fake_response (fake_booted 1500000000 1500000060)))
             (fake_plugin ''example.org'') (fake_request False))
       = Return (\<lparr>Valid = True,
                  BaseSPIFFEID = ''spiffe://example.org/spire/agent/iid_attestor/123456789012/i-0abc''\<rparr>,
                None)"
    by (simp only: fake_identity simp_thms)
  from b [of 1500000061 1500000000 "''example.org''"] d61
  have 2: "fst (Attest (fake_env (fake_response (fake_booted 1500000061 1500000000)))
             (fake_plugin ''example.org'') (fake_request False))
       = Return (\<lparr>Valid = False, BaseSPIFFEID = ''''\<rparr>,
                Some (attestationStepError ''checking the disparity device attach times''
                        (Errorf ''root BlockDeviceMapping and NetworkInterface[0] attach times differ by %d seconds''
                           [ArgInt64 61])))"
    by (simp only: simp_thms)
  from b [of 1500000000 1500000000 "''example.org''"] d0
  have 3: "fst (Attest (fake_env (fake_response (fake_booted 1500000000 1500000000)))
             (fake_plugin ''example.org'') (fake_request False))
       = Return (\<lparr>Valid = True,
                  BaseSPIFFEID = ''spiffe://example.org/spire/agent/iid_attestor/123456789012/i-0abc''\<rparr>,
                None)"
    by (simp only: fake_identity simp_thms)
  from d60 1 d61 2 d0 3 show ?thesis by (intro conjI)
qed

text \<open>
  C5. For a descriptor whose sequence of network interfaces is not empty (its first
  interface, the attachment and the device index being set): when the device index of the
  interface at position 0 is 0, the call goes on to the root device's lookup with the
  block-device mappings, the root device name and that interface's attach time, so the
  outcome does not depend on the other interfaces, and it is not the denial of the
  topology step; when the device index is not 0, \<^verbatim>\<open>Attest\<close> returns \<^verbatim>\<open>Valid: false\<close> with
  the error of the step that verifies the device index (the spec's UnexpectedTopology).
\<close>

theorem attest_topology_first_interface:
  assumes "reachesTopology env p req attestedData doc instance"
    and "NetworkInterfaces instance = Some iface # others"
    and "Attachment iface = Some attachment"
    and "DeviceIndex attachment = Some deviceIndex"
  shows "(deviceIndex = 0 \<longrightarrow>
            fst (Attest env p req) =
              Attest_rootDevice env p doc (BlockDeviceMappings instance) (RootDeviceName instance)
                (AttachTime attachment)
            \<and> fst (Attest env p req) \<noteq>
                Return (\<lparr>Valid = False, BaseSPIFFEID = ''''\<rparr>,
                        Some (attestationStepError
                                ''verifying the EC2 instance's NetworkInterface[0].DeviceIndex is 0''
                                cause)))
         \<and> (deviceIndex \<noteq> 0 \<longrightarrow>
            fst (Attest env p req) =
              Return (\<lparr>Valid = False, BaseSPIFFEID = ''''\<rparr>,
                      Some (attestationStepError
                              ''verifying the EC2 instance's NetworkInterface[0].DeviceIndex is 0''
                              (Errorf ''DeviceIndex is %d'' [ArgInt64 deviceIndex]))))"
proof -
  have pa: "primaryAttachment instance attachment"
    using assms(2,3) by (simp add: primaryAttachment_def)
  have "fst (Attest env p req) =
           (if deviceIndex \<noteq> 0
            then denied ''verifying the EC2 instance's NetworkInterface[0].DeviceIndex is 0''
                   (Errorf ''DeviceIndex is %d'' [ArgInt64 deviceIndex])
            else Attest_rootDevice env p doc (BlockDeviceMappings instance)
                   (RootDeviceName instance) (AttachTime attachment))"
    by (simp add: Attest_reachesTopology [OF assms(1)] Attest_topology_primary [OF pa assms(4)])
  then show ?thesis
    using Attest_rootDevice_not_topology
      [of env p doc "BlockDeviceMappings instance" "RootDeviceName instance" "AttachTime attachment" cause]
    by (simp add: denied_def)
qed

text \<open>
  Device index 0 in front of an interface with index 5 and a nil interface; device index 2
  in front of an interface with index 0.
\<close>

theorem attest_topology_first_interface_witness:
  "reachesTopology
     (fake_env (fake_response (fake_instance [fake_iface 0 1500000000, fake_iface 5 1500000900, None]
                                 [Some (fake_volume ''/dev/xvda'' 1500000002)])))
     (fake_plugin ''example.org'') (fake_request False) fake_attestedData fake_doc
     (fake_instance [fake_iface 0 1500000000, fake_iface 5 1500000900, None]
        [Some (fake_volume ''/dev/xvda'' 1500000002)])
   \<and> fst (Attest
        (fake_env (fake_response (fake_instance [fake_iface 0 1500000000, fake_iface 5 1500000900, None]
                                    [Some (fake_volume ''/dev/xvda'' 1500000002)])))
        (fake_plugin ''example.org'') (fake_request False))
      = Attest_rootDevice
          (fake_env (fake_response (fake_instance [fake_iface 0 1500000000, fake_iface 5 1500000900, None]
                                      [Some (fake_volume ''/dev/xvda'' 1500000002)])))
          (fake_plugin ''example.org'') fake_doc [Some (fake_volume ''/dev/xvda'' 1500000002)]
          (Some ''/dev/xvda'') (Some \<lparr>unixSec = 1500000000, nsec = 0\<rparr>)
   \<and> fst (Attest
        (fake_env (fake_response (fake_instance [fake_iface 2 1500000000, fake_iface 0 1500000000]
                                    [Some (fake_volume ''/dev/xvda'' 1500000002)])))
        (fake_plugin ''example.org'') (fake_request False))
      = Return (\<lparr>Valid = False, BaseSPIFFEID = ''''\<rparr>,
                Some (attestationStepError
                        ''verifying the EC2 instance's NetworkInterface[0].DeviceIndex is 0''
                        (Errorf ''DeviceIndex is %d'' [ArgInt64 2])))"
proof -
  let ?i = "fake_instance [fake_iface 0 1500000000, fake_iface 5 1500000900, None]
              [Some (fake_volume ''/dev/xvda'' 1500000002)]"
  let ?j = "fake_instance [fake_iface 2 1500000000, fake_iface 0 1500000000]
              [Some (fake_volume ''/dev/xvda'' 1500000002)]"
  have ri: "reachesTopology (fake_env (fake_response ?i)) (fake_plugin ''example.org'')
              (fake_request False) fake_attestedData fake_doc ?i"
    by (rule fake_reachesTopology)
  have rj: "reachesTopology (fake_env (fake_response ?j)) (fake_plugin ''example.org'')
              (fake_request False) fake_attestedData fake_doc ?j"
    by (rule fake_reachesTopology)
  have ni: "NetworkInterfaces ?i
              = Some \<lparr>Attachment = Some (fake_attachment 0 1500000000)\<rparr> # [fake_iface 5 1500000900, None]"
    by (simp add: fake_instance_def fake_iface_def)
  have nj: "NetworkInterfaces ?j
              = Some \<lparr>Attachment = Some (fake_attachment 2 1500000000)\<rparr> # [fake_iface 0 1500000000]"
    by (simp add: fake_instance_def fake_iface_def)
  have a: "Attachment \<lparr>Attachment = Some (fake_attachment d s)\<rparr> = Some (fake_attachment d s)" for d s
    by simp
  have d: "DeviceIndex (fake_attachment d s) = Some d" for d s
    by (simp add: fake_attachment_def)
  from attest_topology_first_interface [OF ri ni a d]
  have 1: "fst (Attest (fake_env (fake_response ?i)) (fake_plugin ''example.org'') (fake_request False))
      = Attest_rootDevice (fake_env (fake_response ?i)) (fake_plugin ''example.org'') fake_doc
          (BlockDeviceMappings ?i) (RootDeviceName ?i) (AttachTime (fake_attachment 0 1500000000))"
    by simp
  from attest_topology_first_interface [OF rj nj a d]
  have 2: "fst (Attest (fake_env (fake_response ?j)) (fake_plugin ''example.org'') (fake_request False))
      = Return (\<lparr>Valid = False, BaseSPIFFEID = ''''\<rparr>,
                Some (attestationStepError
                        ''verifying the EC2 instance's NetworkInterface[0].DeviceIndex is 0''
                        (Errorf ''DeviceIndex is %d'' [ArgInt64 2])))"
    by simp
  have f: "BlockDeviceMappings ?i = [Some (fake_volume ''/dev/xvda'' 1500000002)]"
    "RootDeviceName ?i = Some ''/dev/xvda''"
    "AttachTime (fake_attachment 0 1500000000) = Some \<lparr>unixSec = 1500000000, nsec = 0\<rparr>"
    by (simp_all add: fake_instance_def fake_attachment_def)
  show ?thesis
    using ri 1 2 unfolding f by (intro conjI)
qed

text \<open>
  C6. For a descriptor that reaches the root device's lookup: when every block-device
  mapping has a device name other than the root device's, however many mappings there
  are, \<^verbatim>\<open>Attest\<close> returns \<^verbatim>\<open>Valid: false\<close> with the error of the step "locating the root
  device block mapping" (the spec's RootDeviceNotFound); when some mapping has the root
  device's name, the attach time that enters the disparity check is that of the first
  such mapping in the order of the sequence, whatever follows it.
\<close>

theorem attest_root_device_lookup:
  assumes "reachesTopology env p req attestedData doc instance"
    and "primaryAttachment instance attachment" and "DeviceIndex attachment = Some 0"
  shows "(RootDeviceName instance = Some rootName
            \<and> list_all (otherDevice rootName) (BlockDeviceMappings instance) \<longrightarrow>
            fst (Attest env p req) =
              Return (\<lparr>Valid = False, BaseSPIFFEID = ''''\<rparr>,
                      Some (attestationStepError ''locating the root device block mapping''
                              (Errorf (''could not locate a device mapping with name '%s'' @ [CHR 0x27])
                                 [ArgStringPtr (Some rootName)]))))
         \<and> (firstRootMapping instance rootName preceding m following \<longrightarrow>
            fst (Attest env p req) =
              (case Ebs m of
                 None \<Rightarrow> Panic NilPointerDereference
               | Some ebs \<Rightarrow> Attest_disparity env p doc (AttachTime attachment) (EbsAttachTime ebs)))"
proof (intro conjI impI)
  assume "RootDeviceName instance = Some rootName
            \<and> list_all (otherDevice rootName) (BlockDeviceMappings instance)"
  then have r: "RootDeviceName instance = Some rootName"
    and o: "list_all (otherDevice rootName) (BlockDeviceMappings instance)"
    by simp_all
  show "fst (Attest env p req) =
              Return (\<lparr>Valid = False, BaseSPIFFEID = ''''\<rparr>,
                      Some (attestationStepError ''locating the root device block mapping''
                              (Errorf (''could not locate a device mapping with name '%s'' @ [CHR 0x27])
                                 [ArgStringPtr (Some rootName)])))"
    by (simp add: Attest_reachesTopology [OF assms(1)] Attest_topology_primary [OF assms(2,3)]
          r Attest_rootDevice_none [OF o] denied_def)
next
  assume "firstRootMapping instance rootName preceding m following"
  then show "fst (Attest env p req) =
              (case Ebs m of
                 None \<Rightarrow> Panic NilPointerDereference
               | Some ebs \<Rightarrow> Attest_disparity env p doc (AttachTime attachment) (EbsAttachTime ebs))"
    by (rule Attest_first_root [OF assms])
qed

text \<open>
  Two volumes with other names; and a root volume behind another volume and in front of
  a second volume with the root device's name and a later attach time.
\<close>

theorem attest_root_device_lookup_witness:
  "fst (Attest
        (fake_env (fake_response (fake_instance [fake_iface 0 1500000000]
           [Some (fake_volume ''/dev/xvdb'' 1500000001), Some (fake_volume ''/dev/xvdc'' 1500000002)])))
        (fake_plugin ''example.org'') (fake_request False))
      = Return (\<lparr>Valid = False, BaseSPIFFEID = ''''\<rparr>,
                Some (attestationStepError ''locating the root device block mapping''
                        (Errorf (''could not locate a device mapping with name '%s'' @ [CHR 0x27])
                           [ArgStringPtr (Some ''/dev/xvda'')])))
   \<and> fst (Attest
        (fake_env (fake_response (fake_instance [fake_iface 0 1500000000]
           [Some (fake_volume ''/dev/xvdb'' 1500000900), Some (fake_volume ''/dev/xvda'' 1500000010),
            Some (fake_volume ''/dev/xvda'' 1500000800)])))
        (fake_plugin ''example.org'') (fake_request False))
      = Attest_disparity
          (fake_env (fake_response (fake_instance [fake_iface 0 1500000000]
             [Some (fake_volume ''/dev/xvdb'' 1500000900), Some (fake_volume ''/dev/xvda'' 1500000010),
              Some (fake_volume ''/dev/xvda'' 1500000800)])))
          (fake_plugin ''example.org'') fake_doc
          (Some \<lparr>unixSec = 1500000000, nsec = 0\<rparr>) (Some \<lparr>unixSec = 1500000010, nsec = 0\<rparr>)"
proof -
  let ?i = "fake_instance [fake_iface 0 1500000000]
           [Some (fake_volume ''/dev/xvdb'' 1500000001), Some (fake_volume ''/dev/xvdc'' 1500000002)]"
  let ?j = "fake_instance [fake_iface 0 1500000000]
           [Some (fake_volume ''/dev/xvdb'' 1500000900), Some (fake_volume ''/dev/xvda'' 1500000010),
            Some (fake_volume ''/dev/xvda'' 1500000800)]"
  have o: "RootDeviceName ?i = Some ''/dev/xvda''
             \<and> list_all (otherDevice ''/dev/xvda'') (BlockDeviceMappings ?i)"
    using fake_otherDevices [of 1500000001 1500000002] by (simp only: fake_instance_fields simp_thms)
  have f: "firstRootMapping ?j ''/dev/xvda'' [Some (fake_volume ''/dev/xvdb'' 1500000900)]
             (fake_volume ''/dev/xvda'' 1500000010) [Some (fake_volume ''/dev/xvda'' 1500000800)]"
    by (rule fake_firstRootMapping)
  have ri: "reachesTopology (fake_env (fake_response ?i)) (fake_plugin ''example.org'')
              (fake_request False) fake_attestedData fake_doc ?i"
    by (rule fake_reachesTopology)
  have rj: "reachesTopology (fake_env (fake_response ?j)) (fake_plugin ''example.org'')
              (fake_request False) fake_attestedData fake_doc ?j"
    by (rule fake_reachesTopology)
  have pi: "primaryAttachment ?i (fake_attachment 0 1500000000)"
    by (rule fake_primaryAttachment)
  have pj: "primaryAttachment ?j (fake_attachment 0 1500000000)"
    by (rule fake_primaryAttachment)
  have d: "DeviceIndex (fake_attachment 0 1500000000) = Some 0"
    by (rule fake_attachment_fields)
  from attest_root_device_lookup [OF ri pi d] o
  have 1: "fst (Attest (fake_env (fake_response ?i)) (fake_plugin ''example.org'') (fake_request False))
      = Return (\<lparr>Valid = False, BaseSPIFFEID = ''''\<rparr>,
                Some (attestationStepError ''locating the root device block mapping''
                        (Errorf (''could not locate a device mapping with name '%s'' @ [CHR 0x27])
                           [ArgStringPtr (Some ''/dev/xvda'')])))"
    by blast
  from attest_root_device_lookup [OF rj pj d] f
  have 2: "fst (Attest (fake_env (fake_response ?j)) (fake_plugin ''example.org'') (fake_request False))
      = (case Ebs (fake_volume ''/dev/xvda'' 1500000010) of
           None \<Rightarrow> Panic NilPointerDereference
         | Some ebs \<Rightarrow>
             Attest_disparity (fake_env (fake_response ?j)) (fake_plugin ''example.org'') fake_doc
               (AttachTime (fake_attachment 0 1500000000)) (EbsAttachTime ebs))"
    by blast
  show ?thesis
    using 1 2 by (simp add: fake_volume_fields fake_attachment_fields)
qed

text \<open>
  C10. For a call that gets a descriptor from the provider: when the descriptor's
  sequence of network interfaces is empty, \<^verbatim>\<open>Attest\<close> panics with an index out of range
  (line 140); when the first interface has device index 0 and the first mapping of the
  root device's name has no EBS data, \<^verbatim>\<open>Attest\<close> panics with a nil pointer dereference
  (line 164). In both cases the outcome is a panic, not a \<^verbatim>\<open>Valid: false\<close> response: no
  denial covers these descriptors.
\<close>

theorem attest_unguarded_descriptor_panics:
  assumes "reachesTopology env p req attestedData doc instance"
  shows "(NetworkInterfaces instance = [] \<longrightarrow> fst (Attest env p req) = Panic IndexOutOfRange)
         \<and> (primaryAttachment instance attachment \<and> DeviceIndex attachment = Some 0
              \<and> firstRootMapping instance rootName preceding m following \<and> Ebs m = None
              \<longrightarrow> fst (Attest env p req) = Panic NilPointerDereference)"
proof (intro conjI impI)
  assume "NetworkInterfaces instance = []"
  then show "fst (Attest env p req) = Panic IndexOutOfRange"
    by (simp add: Attest_reachesTopology [OF assms] Attest_topology_def)
next
  assume "primaryAttachment instance attachment \<and> DeviceIndex attachment = Some 0
              \<and> firstRootMapping instance rootName preceding m following \<and> Ebs m = None"
  then have a: "primaryAttachment instance attachment" and d: "DeviceIndex attachment = Some 0"
    and f: "firstRootMapping instance rootName preceding m following" and e: "Ebs m = None"
    by simp_all
  show "fst (Attest env p req) = Panic NilPointerDereference"
    by (simp add: Attest_first_root [OF assms a d f] e)
qed

text \<open>A descriptor without interfaces, and one whose root volume has a nil \<^verbatim>\<open>Ebs\<close>.\<close>

theorem attest_unguarded_descriptor_panics_witness:
  "fst (Attest (fake_env (fake_response (fake_instance [] [Some (fake_volume ''/dev/xvda'' 1500000002)])))
          (fake_plugin ''example.org'') (fake_request False))
     = Panic IndexOutOfRange
   \<and> fst (Attest (fake_env (fake_response (fake_instance [fake_iface 0 1500000000]
                                 [Some \<lparr>DeviceName = Some ''/dev/xvda'', Ebs = None\<rparr>])))
          (fake_plugin ''example.org'') (fake_request False))
     = Panic NilPointerDereference"
proof -
  let ?i = "fake_instance [] [Some (fake_volume ''/dev/xvda'' 1500000002)]"
  let ?j = "fake_instance [fake_iface 0 1500000000] [Some \<lparr>DeviceName = Some ''/dev/xvda'', Ebs = None\<rparr>]"
  have ri: "reachesTopology (fake_env (fake_response ?i)) (fake_plugin ''example.org'')
              (fake_request False) fake_attestedData fake_doc ?i"
    by (rule fake_reachesTopology)
  have rj: "reachesTopology (fake_env (fake_response ?j)) (fake_plugin ''example.org'')
              (fake_request False) fake_attestedData fake_doc ?j"
    by (rule fake_reachesTopology)
  have e: "NetworkInterfaces ?i = []"
    by (simp add: fake_instance_fields)
  have f: "primaryAttachment ?j (fake_attachment 0 1500000000)
             \<and> DeviceIndex (fake_attachment 0 1500000000) = Some 0
             \<and> firstRootMapping ?j ''/dev/xvda'' [] \<lparr>DeviceName = Some ''/dev/xvda'', Ebs = None\<rparr> []
             \<and> Ebs \<lparr>DeviceName = Some ''/dev/xvda'', Ebs = None\<rparr> = None"
    by (simp add: fake_primaryAttachment fake_attachment_fields firstRootMapping_def
          fake_instance_fields)
  from attest_unguarded_descriptor_panics [OF ri] e
  have 1: "fst (Attest (fake_env (fake_response ?i)) (fake_plugin ''example.org'') (fake_request False))
             = Panic IndexOutOfRange"
    by blast
  from attest_unguarded_descriptor_panics [OF rj] f
  have 2: "fst (Attest (fake_env (fake_response ?j)) (fake_plugin ''example.org'') (fake_request False))
             = Panic NilPointerDereference"
    by blast
  from 1 2 show ?thesis by (intro conjI)
qed

subsection \<open>Claims about the identity\<close>

text \<open>
  C7, as stated, fails: the identity is not injective. \<^verbatim>\<open>path.Join\<close> joins the account id
  and the instance id with a slash, so a slash inside one of them moves the boundary:
  account \<^verbatim>\<open>1234/5678\<close> with instance \<^verbatim>\<open>i-0abc\<close>, and account \<^verbatim>\<open>1234\<close> with instance
  \<^verbatim>\<open>5678/i-0abc\<close>, have the same identity in the same trust domain.
\<close>

theorem identity_injective_counterexample:
  "URL_String (spiffeID (fake_plugin ''example.org'') ''1234/5678'' ''i-0abc'')
     = URL_String (spiffeID (fake_plugin ''example.org'') ''1234'' ''5678/i-0abc'')
   \<and> (''example.org'', ''1234/5678'', ''i-0abc'') \<noteq> (''example.org'', ''1234'', ''5678/i-0abc'')"
  by (simp add: spiffeID_def path_Join_def pluginName_def)

text \<open>
  C7, amended. The identity is a function of the trust domain, the account id and the
  instance id alone: plugins with the same trust domain give the same identity. It is
  injective over the triples whose account id and instance id are path segments that
  \<^verbatim>\<open>path.Join\<close> keeps: not empty, neither \<^verbatim>\<open>.\<close> nor \<^verbatim>\<open>..\<close>, and without a slash.
\<close>

theorem identity_deterministic_injective_on_segments:
  "(trustDomain p = trustDomain p' \<longrightarrow>
      URL_String (spiffeID p a i) = URL_String (spiffeID p' a i))
   \<and> (segment a \<and> segment i \<and> segment a' \<and> segment i'
        \<and> URL_String (spiffeID p a i) = URL_String (spiffeID p' a' i')
      \<longrightarrow> trustDomain p = trustDomain p' \<and> a = a' \<and> i = i')"
proof (intro conjI impI)
  assume "trustDomain p = trustDomain p'"
  then show "URL_String (spiffeID p a i) = URL_String (spiffeID p' a i)"
    by (simp add: spiffeID_def)
next
  assume h: "segment a \<and> segment i \<and> segment a' \<and> segment i'
        \<and> URL_String (spiffeID p a i) = URL_String (spiffeID p' a' i')"
  then have "trustDomain p = trustDomain p' \<and> a = a' \<and> i = i'"
    by (intro spiffeID_String_inj) simp_all
  then show "trustDomain p = trustDomain p'" and "a = a'" and "i = i'"
    by simp_all
qed

text \<open>A configured plugin and a new one with the same trust domain.\<close>

theorem identity_deterministic_injective_on_segments_witness:
  "trustDomain (fake_plugin ''example.org'') = trustDomain (New\<lparr>trustDomain := ''example.org''\<rparr>)
   \<and> segment (AccountId fake_doc) \<and> segment (InstanceId fake_doc)
   \<and> segment ''123456789012'' \<and> segment ''i-0abc''
   \<and> URL_String (spiffeID (fake_plugin ''example.org'') (AccountId fake_doc) (InstanceId fake_doc))
       = URL_String (spiffeID (New\<lparr>trustDomain := ''example.org''\<rparr>) ''123456789012'' ''i-0abc'')
   \<and> AccountId fake_doc = ''123456789012'' \<and> InstanceId fake_doc = ''i-0abc''"
proof -
  have t: "trustDomain (fake_plugin ''example.org'') = trustDomain (New\<lparr>trustDomain := ''example.org''\<rparr>)"
    by (simp add: fake_plugin_def New_def)
  have s: "segment (AccountId fake_doc)" "segment (InstanceId fake_doc)"
    and s': "segment ''123456789012''" "segment ''i-0abc''"
    by (simp_all add: segment_def fake_doc_def)
  from identity_deterministic_injective_on_segments
         [of "fake_plugin ''example.org''" "New\<lparr>trustDomain := ''example.org''\<rparr>"
             "''123456789012''" "''i-0abc''"] t
  have "URL_String (spiffeID (fake_plugin ''example.org'') ''123456789012'' ''i-0abc'')
       = URL_String (spiffeID (New\<lparr>trustDomain := ''example.org''\<rparr>) ''123456789012'' ''i-0abc'')"
    by blast
  then have e: "URL_String (spiffeID (fake_plugin ''example.org'') (AccountId fake_doc) (InstanceId fake_doc))
       = URL_String (spiffeID (New\<lparr>trustDomain := ''example.org''\<rparr>) ''123456789012'' ''i-0abc'')"
    by (simp add: fake_doc_def)
  from identity_deterministic_injective_on_segments
         [of "fake_plugin ''example.org''" "New\<lparr>trustDomain := ''example.org''\<rparr>"
             "AccountId fake_doc" "InstanceId fake_doc" "''123456789012''" "''i-0abc''"] s s' e
  have "AccountId fake_doc = ''123456789012''" and "InstanceId fake_doc = ''i-0abc''"
    by blast+
  with t s s' e show ?thesis by (intro conjI)
qed

subsection \<open>Claims about Configure\<close>

text \<open>
  C8, as stated, fails. The request has no certificate: \<^verbatim>\<open>Configure\<close> reads its
  \<^verbatim>\<open>Configuration\<close> for the trust domain, and decodes the constant \<^verbatim>\<open>awsCaCertPEM\<close>. A
  request whose configuration carries another root certificate, which the environment
  decodes to another key, is configured with the key of the embedded certificate.
\<close>

theorem configure_supplied_root_counterexample:
  "pem_Decode (fake_configure_env (RSAPublicKey fake_key)) (Configuration fake_configure_request)
     = Some \<lparr>Bytes = ''der of the other root''\<rparr>
   \<and> x509_ParseCertificate (fake_configure_env (RSAPublicKey fake_key)) ''der of the other root''
       = Inr \<lparr>PublicKey = RSAPublicKey fake_other_key\<rparr>
   \<and> snd (Configure (fake_configure_env (RSAPublicKey fake_key)) New fake_configure_request)
       = Return (\<lparr>ErrorList = []\<rparr>, None)
   \<and> fst (Configure (fake_configure_env (RSAPublicKey fake_key)) New fake_configure_request)
       = New\<lparr>trustDomain := ''example.org'', awsCaCertPublicKey := Some fake_key\<rparr>
   \<and> fake_key \<noteq> fake_other_key"
proof -
  have n: "Configuration fake_configure_request \<noteq> awsCaCertPEM"
    by (simp add: fake_configure_request_def awsCaCertPEM_def)
  have d: "dropWhile (\<lambda>c. c \<noteq> CHR ''-'') (Configuration fake_configure_request) = fake_other_root"
    by (simp add: fake_configure_request_def fake_other_root_def)
  have 1: "pem_Decode (fake_configure_env (RSAPublicKey fake_key)) (Configuration fake_configure_request)
     = Some \<lparr>Bytes = ''der of the other root''\<rparr>"
    using n d by (simp add: fake_configure_env_def)
  have 2: "x509_ParseCertificate (fake_configure_env (RSAPublicKey fake_key)) ''der of the other root''
       = Inr \<lparr>PublicKey = RSAPublicKey fake_other_key\<rparr>"
    by (simp add: fake_configure_env_def)
  have h: "hcl_Parse (fake_configure_env (RSAPublicKey fake_key)) (Configuration fake_configure_request)
     = Inr \<lparr>TrustDomain = ''example.org''\<rparr>"
    by (simp add: fake_configure_env_def fake_configure_request_def)
  have c: "Configure (fake_configure_env (RSAPublicKey fake_key)) New fake_configure_request
      = (New\<lparr>trustDomain := ''example.org'', awsCaCertPublicKey := Some fake_key\<rparr>,
         Return (\<lparr>ErrorList = []\<rparr>, None))"
    unfolding Configure_def h by (simp add: fake_configure_env_def New_def)
  have 5: "fake_key \<noteq> fake_other_key"
    by (simp add: fake_key_def fake_other_key_def)
  from 1 2 c 5 show ?thesis by simp
qed

text \<open>
  C8, amended. After every successful \<^verbatim>\<open>Configure\<close> the plugin's public key is the RSA
  key of the certificate embedded in \<^verbatim>\<open>awsCaCertPEM\<close>, whatever the request holds; and when
  the configuration parses and decodes and the embedded certificate's public key is not an
  RSA key, \<^verbatim>\<open>Configure\<close> returns the error "Error extracting the AWS CA Certificate's public
  key" (the spec's UnsupportedKeyType) and leaves the plugin as it was.
\<close>

theorem configure_key_from_embedded_certificate:
  "(snd (Configure env p req) = Return (resp, None) \<longrightarrow>
      map_option RSAPublicKey (awsCaCertPublicKey (fst (Configure env p req)))
        = embeddedPublicKey env)
   \<and> (hcl_Parse env (Configuration req) = Inr hclTree \<and> hcl_DecodeObject env hclTree = Inr config
        \<and> embeddedPublicKey env = Some k \<and> \<not> isRSA k \<longrightarrow>
      Configure env p req =
        (p, Return (\<lparr>ErrorList = []\<rparr>,
                    Some (Errorf ''Error extracting the AWS CA Certificate's public key in the AWS IID Attestor: %v''
                            [ArgNil]))))"
proof (intro conjI impI)
  assume "snd (Configure env p req) = Return (resp, None)"
  from Configure_success [OF this]
  show "map_option RSAPublicKey (awsCaCertPublicKey (fst (Configure env p req)))
        = embeddedPublicKey env"
    by auto
next
  assume "hcl_Parse env (Configuration req) = Inr hclTree \<and> hcl_DecodeObject env hclTree = Inr config
        \<and> embeddedPublicKey env = Some k \<and> \<not> isRSA k"
  then have "hcl_Parse env (Configuration req) = Inr hclTree"
    and "hcl_DecodeObject env hclTree = Inr config"
    and "embeddedPublicKey env = Some k" and "\<not> isRSA k"
    by simp_all
  then show "Configure env p req =
        (p, Return (\<lparr>ErrorList = []\<rparr>,
                    Some (Errorf ''Error extracting the AWS CA Certificate's public key in the AWS IID Attestor: %v''
                            [ArgNil])))"
    by (rule Configure_not_RSA)
qed

text \<open>An environment that reads an RSA key from the embedded certificate, and one that reads an ECDSA key.\<close>

theorem configure_key_from_embedded_certificate_witness:
  "snd (Configure (fake_configure_env (RSAPublicKey fake_key)) New fake_configure_request)
     = Return (\<lparr>ErrorList = []\<rparr>, None)
   \<and> map_option RSAPublicKey
        (awsCaCertPublicKey (fst (Configure (fake_configure_env (RSAPublicKey fake_key)) New
                                    fake_configure_request)))
       = Some (RSAPublicKey fake_key)
   \<and> embeddedPublicKey (fake_configure_env ECDSAPublicKey) = Some ECDSAPublicKey
   \<and> \<not> isRSA ECDSAPublicKey
   \<and> Configure (fake_configure_env ECDSAPublicKey) (fake_plugin ''old.example'') fake_configure_request
       = (fake_plugin ''old.example'',
          Return (\<lparr>ErrorList = []\<rparr>,
                  Some (Errorf ''Error extracting the AWS CA Certificate's public key in the AWS IID Attestor: %v''
                          [ArgNil])))"
proof -
  have s: "snd (Configure (fake_configure_env (RSAPublicKey fake_key)) New fake_configure_request)
     = Return (\<lparr>ErrorList = []\<rparr>, None)"
    by (simp add: fake_configure_run)
  from configure_key_from_embedded_certificate
         [of "fake_configure_env (RSAPublicKey fake_key)" New fake_configure_request] s
  have 1: "map_option RSAPublicKey
        (awsCaCertPublicKey (fst (Configure (fake_configure_env (RSAPublicKey fake_key)) New
                                    fake_configure_request)))
       = Some (RSAPublicKey fake_key)"
    by (simp only: fake_configure_embedded simp_thms)
  have e: "embeddedPublicKey (fake_configure_env ECDSAPublicKey) = Some ECDSAPublicKey"
    by (rule fake_configure_embedded)
  have r: "\<not> isRSA ECDSAPublicKey"
    by (simp add: isRSA_def)
  from configure_key_from_embedded_certificate
         [of "fake_configure_env ECDSAPublicKey" _ fake_configure_request _
             "\<lparr>TrustDomain = ''example.org''\<rparr>" "\<lparr>TrustDomain = ''example.org''\<rparr>" ECDSAPublicKey]
       fake_configure_parsed [of ECDSAPublicKey] e r
  have 2: "Configure (fake_configure_env ECDSAPublicKey) (fake_plugin ''old.example'') fake_configure_request
       = (fake_plugin ''old.example'',
          Return (\<lparr>ErrorList = []\<rparr>,
                  Some (Errorf ''Error extracting the AWS CA Certificate's public key in the AWS IID Attestor: %v''
                          [ArgNil])))"
    by blast
  from s 1 e r 2 show ?thesis by (intro conjI)
qed

text \<open>
  C9. Every \<^verbatim>\<open>Configure\<close> call that returns an error (from the HCL parser, the decoder,
  the certificate parser or the key's type assertion) leaves the plugin as it was: the
  trust domain and the public key are those from before the call.
\<close>

theorem configure_error_keeps_anchor:
  assumes "snd (Configure env p req) = Return (resp, Some err)"
  shows "fst (Configure env p req) = p
         \<and> trustDomain (fst (Configure env p req)) = trustDomain p
         \<and> awsCaCertPublicKey (fst (Configure env p req)) = awsCaCertPublicKey p"
proof -
  from assms have "snd (Configure env p req) \<noteq> Return (\<lparr>ErrorList = []\<rparr>, None)"
    by simp
  then have "fst (Configure env p req) = p"
    by (rule Configure_failure)
  then show ?thesis by simp
qed

text \<open>A configuration that does not parse, and an embedded certificate with a DSA key.\<close>

theorem configure_error_keeps_anchor_witness:
  "snd (Configure (fake_configure_env (RSAPublicKey fake_other_key)) (fake_plugin ''old.example'')
          \<lparr>Configuration = ''trust_domain''\<rparr>)
     = Return (\<lparr>ErrorList = []\<rparr>,
               Some (Errorf ''Error parsing AWS IID Attestor configuration: %s''
                       [ArgError (LibErr ''illegal char'')]))
   \<and> fst (Configure (fake_configure_env (RSAPublicKey fake_other_key)) (fake_plugin ''old.example'')
          \<lparr>Configuration = ''trust_domain''\<rparr>)
     = fake_plugin ''old.example''
   \<and> snd (Configure (fake_configure_env DSAPublicKey) (fake_plugin ''old.example'')
          fake_configure_request)
     = Return (\<lparr>ErrorList = []\<rparr>,
               Some (Errorf ''Error extracting the AWS CA Certificate's public key in the AWS IID Attestor: %v''
                       [ArgNil]))
   \<and> fst (Configure (fake_configure_env DSAPublicKey) (fake_plugin ''old.example'')
          fake_configure_request)
     = fake_plugin ''old.example''"
proof -
  have h: "hcl_Parse (fake_configure_env (RSAPublicKey fake_other_key)) (Configuration \<lparr>Configuration = ''trust_domain''\<rparr>)
     = Inl (LibErr ''illegal char'')"
    by (simp add: fake_configure_env_def)
  have 1: "snd (Configure (fake_configure_env (RSAPublicKey fake_other_key)) (fake_plugin ''old.example'')
          \<lparr>Configuration = ''trust_domain''\<rparr>)
     = Return (\<lparr>ErrorList = []\<rparr>,
               Some (Errorf ''Error parsing AWS IID Attestor configuration: %s''
                       [ArgError (LibErr ''illegal char'')]))"
    unfolding Configure_def h by simp
  have 3: "snd (Configure (fake_configure_env DSAPublicKey) (fake_plugin ''old.example'')
          fake_configure_request)
     = Return (\<lparr>ErrorList = []\<rparr>,
               Some (Errorf ''Error extracting the AWS CA Certificate's public key in the AWS IID Attestor: %v''
                       [ArgNil]))"
    by (simp add: Configure_not_RSA [OF fake_configure_parsed fake_configure_embedded] isRSA_def)
  from configure_error_keeps_anchor [OF 1]
  have 2: "fst (Configure (fake_configure_env (RSAPublicKey fake_other_key)) (fake_plugin ''old.example'')
          \<lparr>Configuration = ''trust_domain''\<rparr>)
     = fake_plugin ''old.example''"
    by simp
  from configure_error_keeps_anchor [OF 3]
  have 4: "fst (Configure (fake_configure_env DSAPublicKey) (fake_plugin ''old.example'')
          fake_configure_request)
     = fake_plugin ''old.example''"
    by simp
  from 1 2 3 4 show ?thesis by (intro conjI)
qed

end
